theory Spec2Isabelle
  imports Complex_Main "HOL-Library.AList"
begin

section \<open>JavaScript values and the built-ins the sources use\<close>

text \<open>
  The data the client handles is what \<^verbatim>\<open>response.json()\<close> returns plus the object
  literals the code builds from it. A value is one of the JSON shapes or \<^verbatim>\<open>undefined\<close>.
  A number is an integer of magnitude below \<open>2^53\<close>, which JavaScript holds and prints
  exactly (fractions and larger numbers are outside the model). Strings are lists of
  code units below 256 (Latin-1). An object is the list of its own properties in
  creation order; a later entry with a key that occurs earlier is dead. Every value
  but \<^verbatim>\<open>null\<close> and \<^verbatim>\<open>undefined\<close> has the prototype of its kind, and a read
  \<^verbatim>\<open>x[k]\<close> that finds no own property goes on to the prototype chain (\<open>read\<close> below).
\<close>

datatype json =
    JUndefined
  | JNull
  | JBool bool
  | JNum int
  | JStr string
  | JArr "json list"
  | JObj "(string \<times> json) list"

text \<open>What a \<^verbatim>\<open>throw\<close> carries; \<open>message\<close> is \<^verbatim>\<open>error.message\<close>.\<close>

datatype js_exn = Error string | TypeError string | SyntaxError string

fun message :: "js_exn \<Rightarrow> string" where
  "message (Error m) = m"
| "message (TypeError m) = m"
| "message (SyntaxError m) = m"

text \<open>Sequencing: the first \<^verbatim>\<open>throw\<close> ends the computation.\<close>

definition and_then :: "js_exn + 'a \<Rightarrow> ('a \<Rightarrow> js_exn + 'b) \<Rightarrow> js_exn + 'b" where
  "and_then m f = (case m of Inl e \<Rightarrow> Inl e | Inr x \<Rightarrow> f x)"

text \<open>\<^verbatim>\<open>if (x)\<close>, \<^verbatim>\<open>!x\<close>, \<^verbatim>\<open>x ? a : b\<close> and \<^verbatim>\<open>x || y\<close>.\<close>

fun truthy :: "json \<Rightarrow> bool" where
  "truthy JUndefined = False"
| "truthy JNull = False"
| "truthy (JBool b) = b"
| "truthy (JNum n) = (n \<noteq> 0)"
| "truthy (JStr s) = (s \<noteq> [])"
| "truthy (JArr xs) = True"
| "truthy (JObj kvs) = True"

definition js_or :: "json \<Rightarrow> json \<Rightarrow> json" where
  "js_or a b = (if truthy a then a else b)"

subsection \<open>Numbers as decimal text\<close>

definition digit_char :: "nat \<Rightarrow> char" where
  "digit_char d = char_of (48 + d)"

fun show_nat :: "nat \<Rightarrow> string" where
  "show_nat n = (if n < 10 then [digit_char n] else show_nat (n div 10) @ [digit_char (n mod 10)])"

declare show_nat.simps [simp del]

definition show_int :: "int \<Rightarrow> string" where
  "show_int i = (if i < 0 then CHR ''-'' # show_nat (nat (- i)) else show_nat (nat i))"

definition is_digit :: "char \<Rightarrow> bool" where
  "is_digit c = (48 \<le> (of_char c :: nat) \<and> (of_char c :: nat) \<le> 57)"

definition dec_value :: "string \<Rightarrow> int" where
  "dec_value s = foldl (\<lambda>a c. 10 * a + ((of_char c :: int) - 48)) 0 s"

text \<open>
  An array index is a canonical decimal numeral below \<open>2^32 - 1\<close>: the keys that
  arrays and strings answer by position and that \<^verbatim>\<open>Object.keys\<close> lists first.
\<close>

definition array_index :: "string \<Rightarrow> int option" where
  "array_index s =
     (if s \<noteq> [] \<and> list_all is_digit s \<and> (length s = 1 \<or> hd s \<noteq> CHR ''0'')
         \<and> dec_value s < 4294967295
      then Some (dec_value s) else None)"

subsection \<open>Strings\<close>

fun join :: "string \<Rightarrow> string list \<Rightarrow> string" where
  "join sep [] = []"
| "join sep [x] = x"
| "join sep (x # y # xs) = x @ sep @ join sep (y # xs)"

text \<open>
  \<^verbatim>\<open>String(x)\<close>, template interpolation and \<^verbatim>\<open>x.toString()\<close> on JSON data. An object
  prints through \<^verbatim>\<open>Object.prototype.toString\<close>: objects that have an own property
  \<^verbatim>\<open>toString\<close> are outside the model.
\<close>

fun js_to_string :: "json \<Rightarrow> string" where
  "js_to_string JUndefined = ''undefined''"
| "js_to_string JNull = ''null''"
| "js_to_string (JBool b) = (if b then ''true'' else ''false'')"
| "js_to_string (JNum n) = show_int n"
| "js_to_string (JStr s) = s"
| "js_to_string (JArr xs) =
     join '','' (map (\<lambda>x. if x = JNull \<or> x = JUndefined then [] else js_to_string x) xs)"
| "js_to_string (JObj kvs) = ''[object Object]''"

text \<open>\<^verbatim>\<open>trim\<close> removes white space and line terminators from both ends.\<close>

definition is_ws :: "char \<Rightarrow> bool" where
  "is_ws c = ((of_char c :: nat) \<in> {9, 10, 11, 12, 13, 32, 160})"

definition trim :: "string \<Rightarrow> string" where
  "trim s = rev (dropWhile is_ws (rev (dropWhile is_ws s)))"

definition lower_char :: "char \<Rightarrow> char" where
  "lower_char c =
     (let n = (of_char c :: nat)
      in if (65 \<le> n \<and> n \<le> 90) \<or> (192 \<le> n \<and> n \<le> 222 \<and> n \<noteq> 215)
         then char_of (n + 32) else c)"

definition toLowerCase :: "string \<Rightarrow> string" where
  "toLowerCase s = map lower_char s"

definition startsWith :: "string \<Rightarrow> string \<Rightarrow> bool" where
  "startsWith s p = (take (length p) s = p)"

subsection \<open>Property reads and writes\<close>

definition cannot_read :: "string \<Rightarrow> string \<Rightarrow> js_exn" where
  "cannot_read what k =
     TypeError (''Cannot read properties of '' @ what @ '' (reading '' @ [CHR 0x27] @ k @ [CHR 0x27] @ '')'')"

text \<open>
  The own properties: of an object its entries, of an array and of a string
  \<^verbatim>\<open>length\<close> and the indices.
\<close>

fun own_property :: "json \<Rightarrow> string \<Rightarrow> json option" where
  "own_property (JObj kvs) k = map_of kvs k"
| "own_property (JArr xs) k =
     (if k = ''length'' then Some (JNum (int (length xs)))
      else case array_index k of
             Some i \<Rightarrow> if i < int (length xs) then Some (xs ! nat i) else None
           | None \<Rightarrow> None)"
| "own_property (JStr s) k =
     (if k = ''length'' then Some (JNum (int (length s)))
      else case array_index k of
             Some i \<Rightarrow> if i < int (length s) then Some (JStr [s ! nat i]) else None
           | None \<Rightarrow> None)"
| "own_property x k = None"

text \<open>
  What a read finds on the prototype chain is no JSON data but an object of the
  runtime: a built-in function, or (under the key \<^verbatim>\<open>__proto__\<close>) the prototype
  itself. The member names are those of ECMAScript 2024 with its Annex B.
\<close>

datatype builtin =
    BuiltinFunction string
  | ObjectPrototype
  | ArrayPrototype
  | StringPrototype
  | NumberPrototype
  | BooleanPrototype

definition object_members :: "string list" where
  "object_members =
     [''constructor'', ''__defineGetter__'', ''__defineSetter__'', ''hasOwnProperty'',
      ''__lookupGetter__'', ''__lookupSetter__'', ''isPrototypeOf'', ''propertyIsEnumerable'',
      ''toString'', ''valueOf'', ''__proto__'', ''toLocaleString'']"

definition array_members :: "string list" where
  "array_members =
     [''at'', ''concat'', ''copyWithin'', ''entries'', ''every'', ''fill'', ''filter'', ''find'',
      ''findIndex'', ''findLast'', ''findLastIndex'', ''flat'', ''flatMap'', ''forEach'',
      ''includes'', ''indexOf'', ''join'', ''keys'', ''lastIndexOf'', ''map'', ''pop'', ''push'',
      ''reduce'', ''reduceRight'', ''reverse'', ''shift'', ''slice'', ''some'', ''sort'', ''splice'',
      ''toLocaleString'', ''toReversed'', ''toSorted'', ''toSpliced'', ''toString'', ''unshift'',
      ''values'', ''with'']"

definition string_members :: "string list" where
  "string_members =
     [''at'', ''charAt'', ''charCodeAt'', ''codePointAt'', ''concat'', ''endsWith'', ''includes'',
      ''indexOf'', ''isWellFormed'', ''lastIndexOf'', ''localeCompare'', ''match'', ''matchAll'',
      ''normalize'', ''padEnd'', ''padStart'', ''repeat'', ''replace'', ''replaceAll'', ''search'',
      ''slice'', ''split'', ''startsWith'', ''substring'', ''toLocaleLowerCase'',
      ''toLocaleUpperCase'', ''toLowerCase'', ''toString'', ''toUpperCase'', ''toWellFormed'',
      ''trim'', ''trimEnd'', ''trimStart'', ''valueOf'',
      ''substr'', ''anchor'', ''big'', ''blink'', ''bold'', ''fixed'', ''fontcolor'', ''fontsize'',
      ''italics'', ''link'', ''small'', ''strike'', ''sub'', ''sup'', ''trimLeft'', ''trimRight'']"

definition number_members :: "string list" where
  "number_members =
     [''toExponential'', ''toFixed'', ''toLocaleString'', ''toPrecision'', ''toString'', ''valueOf'']"

definition boolean_members :: "string list" where
  "boolean_members = [''toString'', ''valueOf'']"

text \<open>
  The name a built-in function has: the key it is found under, but for the two
  aliases of Annex B.
\<close>

definition function_name :: "string \<Rightarrow> string" where
  "function_name k =
     (if k = ''trimLeft'' then ''trimStart'' else if k = ''trimRight'' then ''trimEnd'' else k)"

text \<open>
  The chain of a value: its own prototype (with the given constructor and members),
  then \<^verbatim>\<open>Object.prototype\<close>. \<^verbatim>\<open>__proto__\<close> is an accessor of \<^verbatim>\<open>Object.prototype\<close> that
  answers the prototype of the value it is read on.
\<close>

definition inherited_from :: "builtin \<Rightarrow> string \<Rightarrow> string list \<Rightarrow> string \<Rightarrow> builtin option" where
  "inherited_from proto ctor members k =
     (if k = ''__proto__'' then Some proto
      else if k = ''constructor'' then Some (BuiltinFunction ctor)
      else if k \<in> set members \<or> k \<in> set object_members then Some (BuiltinFunction (function_name k))
      else None)"

fun inherited :: "json \<Rightarrow> string \<Rightarrow> builtin option" where
  "inherited (JObj kvs) k = inherited_from ObjectPrototype ''Object'' [] k"
| "inherited (JArr xs) k = inherited_from ArrayPrototype ''Array'' array_members k"
| "inherited (JStr s) k = inherited_from StringPrototype ''String'' string_members k"
| "inherited (JNum n) k = inherited_from NumberPrototype ''Number'' number_members k"
| "inherited (JBool b) k = inherited_from BooleanPrototype ''Boolean'' boolean_members k"
| "inherited x k = None"

text \<open>
  \<^verbatim>\<open>x[k]\<close>: on \<^verbatim>\<open>null\<close> or \<^verbatim>\<open>undefined\<close> a TypeError (the text is the one V8 gives);
  else the own property, else what the chain has, else \<^verbatim>\<open>undefined\<close>.
\<close>

datatype read_value = Data json | Builtin builtin

definition read_in :: "json \<Rightarrow> string \<Rightarrow> read_value" where
  "read_in x k =
     (case own_property x k of
        Some v \<Rightarrow> Data v
      | None \<Rightarrow> (case inherited x k of Some b \<Rightarrow> Builtin b | None \<Rightarrow> Data JUndefined))"

fun read :: "json \<Rightarrow> string \<Rightarrow> js_exn + read_value" where
  "read JUndefined k = Inl (cannot_read ''undefined'' k)"
| "read JNull k = Inl (cannot_read ''null'' k)"
| "read x k = Inr (read_in x k)"

text \<open>
  \<^verbatim>\<open>x.k\<close> for the keys that the sources write out: \<^verbatim>\<open>results\<close>, \<^verbatim>\<open>bindings\<close>,
  \<^verbatim>\<open>head\<close>, \<^verbatim>\<open>vars\<close>, \<^verbatim>\<open>value\<close>, \<^verbatim>\<open>boolean\<close>, \<^verbatim>\<open>detail\<close>, \<^verbatim>\<open>success\<close> and
  \<^verbatim>\<open>message\<close>. No prototype has a member of one of these names, so for them the read
  is the read of an own property (\<open>get_is_read\<close> below proves that \<open>get\<close> is \<open>read\<close>
  there).
\<close>

definition literal_keys :: "string list" where
  "literal_keys =
     [''results'', ''bindings'', ''head'', ''vars'', ''value'', ''boolean'', ''detail'',
      ''success'', ''message'']"

fun get :: "json \<Rightarrow> string \<Rightarrow> js_exn + json" where
  "get JUndefined k = Inl (cannot_read ''undefined'' k)"
| "get JNull k = Inl (cannot_read ''null'' k)"
| "get (JBool b) k = Inr JUndefined"
| "get (JNum n) k = Inr JUndefined"
| "get (JStr s) k =
     (if k = ''length'' then Inr (JNum (int (length s)))
      else case array_index k of
             Some i \<Rightarrow> Inr (if i < int (length s) then JStr [s ! nat i] else JUndefined)
           | None \<Rightarrow> Inr JUndefined)"
| "get (JArr xs) k =
     (if k = ''length'' then Inr (JNum (int (length xs)))
      else case array_index k of
             Some i \<Rightarrow> Inr (if i < int (length xs) then xs ! nat i else JUndefined)
           | None \<Rightarrow> Inr JUndefined)"
| "get (JObj kvs) k = Inr (case map_of kvs k of Some v \<Rightarrow> v | None \<Rightarrow> JUndefined)"

text \<open>
  The text of a built-in: of a function what V8 prints for it, of a prototype what its
  \<^verbatim>\<open>toString\<close> gives.
\<close>

fun builtin_text :: "builtin \<Rightarrow> string" where
  "builtin_text (BuiltinFunction name) = ''function '' @ name @ ''() { [native code] }''"
| "builtin_text ObjectPrototype = ''[object Object]''"
| "builtin_text ArrayPrototype = []"
| "builtin_text StringPrototype = []"
| "builtin_text NumberPrototype = ''0''"
| "builtin_text BooleanPrototype = ''false''"

text \<open>
  \<^verbatim>\<open>row[k] = v\<close> on an object that began as \<^verbatim>\<open>{}\<close>: the own property \<open>k\<close> is made or
  overwritten. Under the key \<^verbatim>\<open>__proto__\<close> the setter of \<^verbatim>\<open>Object.prototype\<close> runs
  instead and no own property appears; when \<open>v\<close> is an object or \<^verbatim>\<open>null\<close> that setter
  makes it the prototype of the row, which the model, keeping the own properties of
  a row, does not follow.
\<close>

definition assign :: "string \<Rightarrow> json \<Rightarrow> (string \<times> json) list \<Rightarrow> (string \<times> json) list" where
  "assign k v row = (if k = ''__proto__'' then row else AList.update k v row)"

text \<open>
  \<^verbatim>\<open>Object.keys\<close> of an object: the array indices among its own keys in ascending
  numeric order, then the other keys in creation order.
\<close>

definition own_keys :: "(string \<times> json) list \<Rightarrow> string list" where
  "own_keys kvs =
     (let ks = rev (remdups (rev (map fst kvs)));
          idx = filter (\<lambda>k. array_index k \<noteq> None) ks;
          str = filter (\<lambda>k. array_index k = None) ks
      in sort_key dec_value idx @ str)"

fun Object_keys :: "json \<Rightarrow> js_exn + string list" where
  "Object_keys JUndefined = Inl (TypeError ''Cannot convert undefined or null to object'')"
| "Object_keys JNull = Inl (TypeError ''Cannot convert undefined or null to object'')"
| "Object_keys (JBool b) = Inr []"
| "Object_keys (JNum n) = Inr []"
| "Object_keys (JStr s) = Inr (map show_nat [0..<length s])"
| "Object_keys (JArr xs) = Inr (map show_nat [0..<length xs])"
| "Object_keys (JObj kvs) = Inr (own_keys kvs)"

section \<open>SPARQLClient: query type and result formatting\<close>

text \<open>
  \<^verbatim>\<open>getQueryType\<close>: the first of the six keywords that the trimmed, lower-cased text
  starts with, else \<^verbatim>\<open>'unknown'\<close>.
\<close>

definition getQueryType :: "string \<Rightarrow> string" where
  "getQueryType sparql =
     (if sparql = [] then ''unknown''
      else let trimmed = toLowerCase (trim sparql) in
        if startsWith trimmed ''select'' then ''select''
        else if startsWith trimmed ''construct'' then ''construct''
        else if startsWith trimmed ''ask'' then ''ask''
        else if startsWith trimmed ''describe'' then ''describe''
        else if startsWith trimmed ''insert'' then ''insert''
        else if startsWith trimmed ''delete'' then ''delete''
        else ''unknown'')"

text \<open>
  The object \<^verbatim>\<open>query\<close> returns: \<^verbatim>\<open>{success, results, executionTime, query}\<close> or
  \<^verbatim>\<open>{success, error, executionTime, query}\<close>; a field the literal does not have
  reads as \<^verbatim>\<open>undefined\<close>.
\<close>

record queryResult =
  success :: bool
  results :: json
  error :: json
  executionTime :: int
  query :: string

text \<open>
  The objects the \<^verbatim>\<open>format...\<close> methods return, one constructor per object literal.
  \<open>raw\<close> is \<open>None\<close> where the literal has no \<^verbatim>\<open>raw\<close> key.
\<close>

datatype formatted =
    Failed json int
  | SelectResults json "(string \<times> json) list list" nat int "json option"
  | AskResults json int json
  | GraphResults json nat int json
  | OtherResults string json int

text \<open>
  The body of \<^verbatim>\<open>headers.forEach(header => { ... row[header] = ... })\<close> for one
  binding: \<open>row\<close> is the object under construction. \<^verbatim>\<open>binding[header]\<close> is a read
  with a computed key. What it finds on the prototype chain is truthy and has no
  property \<^verbatim>\<open>value\<close>, so \<^verbatim>\<open>value.value\<close> is \<^verbatim>\<open>undefined\<close> then.
\<close>

fun build_row :: "json \<Rightarrow> json list \<Rightarrow> (string \<times> json) list \<Rightarrow> js_exn + (string \<times> json) list" where
  "build_row binding [] row = Inr row"
| "build_row binding (header # hs) row =
     and_then (read binding (js_to_string header)) (\<lambda>value.
     and_then (case value of
                 Builtin b \<Rightarrow> Inr JUndefined
               | Data v \<Rightarrow> if truthy v then get v ''value'' else Inr (JStr [])) (\<lambda>x.
       build_row binding hs (assign (js_to_string header) x row)))"

text \<open>The callback of \<^verbatim>\<open>bindings.map\<close>: \<^verbatim>\<open>forEach\<close> exists on arrays only.\<close>

definition select_row :: "json \<Rightarrow> json \<Rightarrow> js_exn + (string \<times> json) list" where
  "select_row headers binding =
     (case headers of
        JArr hs \<Rightarrow> build_row binding hs []
      | _ \<Rightarrow> Inl (TypeError ''headers.forEach is not a function''))"

fun map_rows :: "json \<Rightarrow> json list \<Rightarrow> js_exn + (string \<times> json) list list" where
  "map_rows headers [] = Inr []"
| "map_rows headers (b # bs) =
     and_then (select_row headers b) (\<lambda>r.
     and_then (map_rows headers bs) (\<lambda>rs. Inr (r # rs)))"

text \<open>\<^verbatim>\<open>!results || !results.results || !results.results.bindings\<close>\<close>

definition no_bindings :: "json \<Rightarrow> bool" where
  "no_bindings res =
     (\<not> truthy res \<or>
      (case get res ''results'' of
         Inl e \<Rightarrow> True
       | Inr rr \<Rightarrow> \<not> truthy rr \<or>
           (case get rr ''bindings'' of Inl e \<Rightarrow> True | Inr bs \<Rightarrow> \<not> truthy bs)))"

definition formatSelectResults :: "json \<Rightarrow> int \<Rightarrow> js_exn + formatted" where
  "formatSelectResults res time =
     (if no_bindings res then Inr (SelectResults (JArr []) [] 0 time None)
      else
        and_then (get res ''results'') (\<lambda>rr.
        and_then (get rr ''bindings'') (\<lambda>bindings.
        and_then (get res ''head'') (\<lambda>head.
        and_then (get head ''vars'') (\<lambda>vars.
          let headers = js_or vars (JArr []) in
          and_then
            (case bindings of
               JArr bs \<Rightarrow> map_rows headers bs
             | _ \<Rightarrow> Inl (TypeError ''bindings.map is not a function''))
            (\<lambda>rows. Inr (SelectResults headers rows (length rows) time (Some res))))))))"

definition formatAskResults :: "json \<Rightarrow> int \<Rightarrow> js_exn + formatted" where
  "formatAskResults res time =
     and_then (get res ''boolean'') (\<lambda>b.
       Inr (AskResults (js_or b (JBool False)) time res))"

definition formatGraphResults :: "json \<Rightarrow> int \<Rightarrow> js_exn + formatted" where
  "formatGraphResults res time =
     Inr (GraphResults res (case res of JArr ts \<Rightarrow> length ts | _ \<Rightarrow> 0) time res)"

definition formatResults :: "'a queryResult_scheme \<Rightarrow> js_exn + formatted" where
  "formatResults queryResult =
     (if \<not> success queryResult
      then Inr (Failed (error queryResult) (executionTime queryResult))
      else
        let res = results queryResult;
            queryType = getQueryType (query queryResult)
        in if queryType = ''select'' then formatSelectResults res (executionTime queryResult)
           else if queryType = ''ask'' then formatAskResults res (executionTime queryResult)
           else if queryType = ''construct'' \<or> queryType = ''describe''
             then formatGraphResults res (executionTime queryResult)
           else Inr (OtherResults queryType res (executionTime queryResult)))"

section \<open>SPARQLClient: validation and execution\<close>

text \<open>\<^verbatim>\<open>validateQuery\<close> returns \<^verbatim>\<open>{valid: true}\<close> or \<^verbatim>\<open>{valid: false, error}\<close>.\<close>

datatype validation = Valid | Invalid string

definition validPrefixes :: "string list" where
  "validPrefixes = [''select'', ''construct'', ''ask'', ''describe'', ''insert'', ''delete'', ''with'']"

definition count_char :: "char \<Rightarrow> string \<Rightarrow> nat" where
  "count_char c s = length (filter (\<lambda>x. x = c) s)"

definition validateQuery :: "string \<Rightarrow> validation" where
  "validateQuery sparql =
     (if sparql = [] \<or> trim sparql = [] then Invalid ''Query cannot be empty''
      else
        let trimmed = toLowerCase (trim sparql);
            isValid = list_ex (\<lambda>prefix. startsWith trimmed prefix) validPrefixes
        in if \<not> isValid
           then Invalid ''Query must start with a valid SPARQL keyword (SELECT, CONSTRUCT, ASK, DESCRIBE, INSERT, DELETE, WITH)''
           else
             let openBrackets = count_char (CHR ''{'') sparql;
                 closeBrackets = count_char (CHR ''}'') sparql
             in if openBrackets \<noteq> closeBrackets
                then Invalid ''Mismatched curly brackets in query''
                else Valid)"

record config =
  endpoint :: string
  repository :: string
  username :: string
  password :: string
  timeout :: int

text \<open>
  The body posted to \<^verbatim>\<open>/api/query\<close>; \<^verbatim>\<open>username || undefined\<close> is \<open>None\<close> for the
  empty string.
\<close>

record request =
  req_sparql :: string
  req_format :: string
  req_endpoint :: string
  req_repository :: string
  req_username :: "string option"
  req_password :: "string option"

text \<open>
  What the network gives back: \<^verbatim>\<open>fetch\<close> rejects (no response), or a response with
  its status line whose body \<^verbatim>\<open>response.json()\<close> parses or rejects.
\<close>

datatype payload = Json json | Malformed string

datatype reply = NoResponse string | Response nat string payload

definition ok :: "nat \<Rightarrow> bool" where
  "ok status = (200 \<le> status \<and> status \<le> 299)"

definition or_undefined :: "string \<Rightarrow> string option" where
  "or_undefined s = (if s = [] then None else Some s)"

text \<open>
  The \<^verbatim>\<open>try\<close> block of \<^verbatim>\<open>query\<close> after the request is sent: \<open>Inl\<close> is what it
  throws, \<open>Inr\<close> is \<^verbatim>\<open>data.results\<close>.
\<close>

definition receive :: "reply \<Rightarrow> js_exn + json" where
  "receive r =
     (case r of
        NoResponse m \<Rightarrow> Inl (TypeError m)
      | Response status statusText body \<Rightarrow>
          (case body of
             Malformed m \<Rightarrow> Inl (SyntaxError m)
           | Json data \<Rightarrow>
               if \<not> ok status
               then and_then (get data ''detail'') (\<lambda>detail.
                      Inl (Error (js_to_string
                        (js_or detail (JStr (''HTTP '' @ show_nat status @ '': '' @ statusText))))))
               else and_then (get data ''success'') (\<lambda>flag.
                      if \<not> truthy flag
                      then and_then (get data ''message'') (\<lambda>msg.
                             Inl (Error (js_to_string (js_or msg (JStr ''Query failed'')))))
                      else get data ''results'')))"

text \<open>
  \<^verbatim>\<open>query(sparql, format)\<close>. \<open>net\<close> is the network, \<open>startTime\<close> the first reading
  of \<^verbatim>\<open>Date.now()\<close> and \<open>endTime\<close> the reading the returned object is built from.
  The result is the list of requests sent and either the exception that leaves the
  method or the object it returns.
\<close>

definition query_request :: "config \<Rightarrow> string \<Rightarrow> string \<Rightarrow> request" where
  "query_request cfg sparql format =
     \<lparr> req_sparql = trim sparql, req_format = format,
       req_endpoint = endpoint cfg, req_repository = repository cfg,
       req_username = or_undefined (username cfg),
       req_password = or_undefined (password cfg) \<rparr>"

definition query_fn ::
  "config \<Rightarrow> (request \<Rightarrow> reply) \<Rightarrow> string \<Rightarrow> string \<Rightarrow> int \<Rightarrow> int
     \<Rightarrow> request list \<times> (js_exn + queryResult)" where
  "query_fn cfg net sparql format startTime endTime =
     (if sparql = [] \<or> trim sparql = []
      then ([], Inl (Error ''SPARQL query cannot be empty''))
      else
        let req = query_request cfg sparql format in
        ([req],
         Inr (case receive (net req) of
                Inr res \<Rightarrow>
                  \<lparr> success = True, results = res, error = JUndefined,
                    executionTime = endTime - startTime, query = sparql \<rparr>
              | Inl e \<Rightarrow>
                  \<lparr> success = False, results = JUndefined, error = JStr (message e),
                    executionTime = endTime - startTime, query = sparql \<rparr>)))"

section \<open>Utilities: CSV export\<close>

text \<open>What the browser is asked to save: file name, MIME type, content.\<close>

datatype download = Download string string string

definition escape_quotes :: "string \<Rightarrow> string" where
  "escape_quotes s = concat (map (\<lambda>c. if c = CHR 0x22 then [CHR 0x22, CHR 0x22] else [c]) s)"

text \<open>
  One field: \<^verbatim>\<open>value?.toString().replace(/"/g, '""') || ''\<close>, wrapped in quotes when it
  has a comma; \<open>value\<close> is \<^verbatim>\<open>row[header]\<close>, a read with a computed key.
\<close>

definition csv_field :: "read_value \<Rightarrow> string" where
  "csv_field value =
     (let escaped =
            (case value of
               Data v \<Rightarrow> if v = JNull \<or> v = JUndefined then [] else escape_quotes (js_to_string v)
             | Builtin b \<Rightarrow> escape_quotes (builtin_text b))
      in if CHR '','' \<in> set escaped then [CHR 0x22] @ escaped @ [CHR 0x22] else escaped)"

fun csv_fields :: "json \<Rightarrow> string list \<Rightarrow> js_exn + string list" where
  "csv_fields row [] = Inr []"
| "csv_fields row (header # hs) =
     and_then (read row header) (\<lambda>value.
     and_then (csv_fields row hs) (\<lambda>fs. Inr (csv_field value # fs)))"

fun csv_lines :: "string list \<Rightarrow> json list \<Rightarrow> js_exn + string list" where
  "csv_lines headers [] = Inr []"
| "csv_lines headers (row # rows) =
     and_then (csv_fields row headers) (\<lambda>fs.
     and_then (csv_lines headers rows) (\<lambda>ls. Inr (join '','' fs # ls)))"

text \<open>
  \<^verbatim>\<open>exportToCSV(data, filename)\<close> of the utilities: \<open>Inr None\<close> is the silent return on
  an empty array, \<open>Inr (Some d)\<close> the file handed to the browser.
\<close>

definition exportToCSV :: "json list \<Rightarrow> string \<Rightarrow> js_exn + download option" where
  "exportToCSV data filename =
     (case data of
        [] \<Rightarrow> Inr None
      | first # rest \<Rightarrow>
          and_then (Object_keys first) (\<lambda>headers.
          and_then (csv_lines headers data) (\<lambda>ls.
            Inr (Some (Download filename ''text/csv;charset=utf-8;''
                   (join [CHR 0x0A] (join '','' headers # ls)))))))"

section \<open>GraphDBApp: results, pagination, history, export\<close>

text \<open>Reads of the fields of a formatted result; a missing field is \<^verbatim>\<open>undefined\<close>.\<close>

fun f_success :: "formatted \<Rightarrow> bool" where
  "f_success (Failed e t) = False"
| "f_success r = True"

fun f_type :: "formatted \<Rightarrow> string option" where
  "f_type (Failed e t) = None"
| "f_type (SelectResults hs rows n t raw) = Some ''select''"
| "f_type (AskResults b t raw) = Some ''ask''"
| "f_type (GraphResults ts n t raw) = Some ''graph''"
| "f_type (OtherResults ty d t) = Some ty"

text \<open>\<^verbatim>\<open>results.count || 0\<close>\<close>

fun f_count :: "formatted \<Rightarrow> nat" where
  "f_count (SelectResults hs rows n t raw) = n"
| "f_count (GraphResults ts n t raw) = n"
| "f_count r = 0"

fun f_executionTime :: "formatted \<Rightarrow> int" where
  "f_executionTime (Failed e t) = t"
| "f_executionTime (SelectResults hs rows n t raw) = t"
| "f_executionTime (AskResults b t raw) = t"
| "f_executionTime (GraphResults ts n t raw) = t"
| "f_executionTime (OtherResults ty d t) = t"

text \<open>The formatted result as the plain object it is, for code that handles it as data.\<close>

fun as_object :: "formatted \<Rightarrow> json" where
  "as_object (Failed e t) =
     JObj [(''success'', JBool False), (''error'', e), (''executionTime'', JNum t)]"
| "as_object (SelectResults hs rows n t raw) =
     JObj ([(''success'', JBool True), (''type'', JStr ''select''), (''headers'', hs),
            (''rows'', JArr (map JObj rows)), (''count'', JNum (int n)),
            (''executionTime'', JNum t)]
           @ (case raw of Some r \<Rightarrow> [(''raw'', r)] | None \<Rightarrow> []))"
| "as_object (AskResults b t raw) =
     JObj [(''success'', JBool True), (''type'', JStr ''ask''), (''result'', b),
           (''executionTime'', JNum t), (''raw'', raw)]"
| "as_object (GraphResults ts n t raw) =
     JObj [(''success'', JBool True), (''type'', JStr ''graph''), (''triples'', ts),
           (''count'', JNum (int n)), (''executionTime'', JNum t), (''raw'', raw)]"
| "as_object (OtherResults ty d t) =
     JObj [(''success'', JBool True), (''type'', JStr ty), (''data'', d),
           (''executionTime'', JNum t)]"

record historyEntry =
  h_query :: string
  h_timestamp :: string
  h_success :: bool
  h_executionTime :: int
  h_type :: "string option"
  h_count :: nat

text \<open>The results table as the page shows it.\<close>

datatype cell = Link string | Text string

datatype view =
    Blank
  | EmptyState
  | Table "string list" "cell list list"
  | AskView bool
  | GraphView json
  | RawView json
  | ErrorView json

datatype net_call = ApiQuery request | SampleQueries

text \<open>
  The state of the application that the modelled methods read and write: the fields
  of \<^verbatim>\<open>GraphDBApp\<close>, and of its surroundings the results table, the notifications
  shown, the network calls made and the files handed to the browser. The other
  effects on the page (loading indicators, the raw JSON panel, tabs, statistics
  labels, pagination buttons, connection status, the copy of the history in local
  storage) are written only and are left out.
\<close>

record app =
  currentResults :: "formatted option"
  currentPage :: int
  pageSize :: nat
  lastExecutedQuery :: "string option"
  queryHistory :: "historyEntry list"
  table :: view
  notifications :: "(string \<times> string) list"
  calls :: "net_call list"
  downloads :: "download list"

definition showNotification :: "string \<Rightarrow> string \<Rightarrow> app \<Rightarrow> app" where
  "showNotification msg kind a = a\<lparr>notifications := notifications a @ [(msg, kind)]\<rparr>"

subsection \<open>Display and pagination\<close>

text \<open>\<^verbatim>\<open>xs.slice(start, end)\<close>\<close>

definition js_slice :: "'a list \<Rightarrow> int \<Rightarrow> int \<Rightarrow> 'a list" where
  "js_slice xs start end' =
     (let n = int (length xs);
          k = (if start < 0 then max (n + start) 0 else min start n);
          f = (if end' < 0 then max (n + end') 0 else min end' n)
      in take (nat (f - k)) (drop (nat k) xs))"

text \<open>Assigning to \<^verbatim>\<open>textContent\<close>: \<^verbatim>\<open>null\<close> and \<^verbatim>\<open>undefined\<close> give the empty text.\<close>

definition textContent :: "json \<Rightarrow> string" where
  "textContent v = (if v = JNull \<or> v = JUndefined then [] else js_to_string v)"

text \<open>
  One cell: \<open>value\<close> is \<^verbatim>\<open>row[header]\<close>, a read with a computed key. A non-empty
  string is shown as a link or as text, anything else through
  \<^verbatim>\<open>td.textContent = value || ''\<close>.
\<close>

definition render_cell :: "read_value \<Rightarrow> cell" where
  "render_cell value =
     (case value of
        Data (JStr s) \<Rightarrow>
          if s \<noteq> [] then
            (if startsWith s ''http://'' \<or> startsWith s ''https://'' then Link s else Text s)
          else Text []
      | Data v \<Rightarrow> Text (textContent (js_or v (JStr [])))
      | Builtin b \<Rightarrow> Text (builtin_text b))"

definition render_row :: "json list \<Rightarrow> (string \<times> json) list \<Rightarrow> cell list" where
  "render_row headers row =
     map (\<lambda>header. render_cell (read_in (JObj row) (js_to_string header))) headers"

text \<open>
  \<^verbatim>\<open>Math.ceil(total / pageSize)\<close> on non-negative integers. With a page size of zero
  the quotient is \<^verbatim>\<open>Infinity\<close> or \<^verbatim>\<open>NaN\<close>, and \<^verbatim>\<open>page > totalPages\<close> is false.
\<close>

definition ceil_div :: "nat \<Rightarrow> nat \<Rightarrow> nat" where
  "ceil_div totalRows size' = (totalRows + size' - 1) div size'"

definition beyond_last_page :: "int \<Rightarrow> nat \<Rightarrow> nat \<Rightarrow> bool" where
  "beyond_last_page page totalRows size' =
     (size' \<noteq> 0 \<and> page > int (ceil_div totalRows size'))"

definition displaySelectResults :: "app \<Rightarrow> formatted \<Rightarrow> js_exn + app" where
  "displaySelectResults a res =
     (case res of
        SelectResults headers rows n t raw \<Rightarrow>
          if n = 0 then Inr (a\<lparr>table := EmptyState\<rparr>)
          else
            (case headers of
               JArr hs \<Rightarrow>
                 let startIndex = (currentPage a - 1) * int (pageSize a);
                     endIndex = min (startIndex + int (pageSize a)) (int (length rows));
                     paginatedRows = js_slice rows startIndex endIndex
                 in Inr (a\<lparr>table := Table (map textContent hs) (map (render_row hs) paginatedRows)\<rparr>)
             | _ \<Rightarrow> Inl (TypeError ''results.headers.forEach is not a function''))
      | GraphResults ts n t raw \<Rightarrow>
          if n = 0 then Inr (a\<lparr>table := EmptyState\<rparr>)
          else Inl (cannot_read ''undefined'' ''forEach'')
      | _ \<Rightarrow> Inl (cannot_read ''undefined'' ''forEach''))"

text \<open>
  \<^verbatim>\<open>goToPage(page)\<close>: only a result with a \<^verbatim>\<open>rows\<close> field, that is a select result,
  gets past the first guard.
\<close>

definition goToPage :: "app \<Rightarrow> int \<Rightarrow> js_exn + app" where
  "goToPage a page =
     (case currentResults a of
        Some (SelectResults headers rows n t raw) \<Rightarrow>
          if page < 1 \<or> beyond_last_page page (length rows) (pageSize a) then Inr a
          else displaySelectResults (a\<lparr>currentPage := page\<rparr>) (SelectResults headers rows n t raw)
      | _ \<Rightarrow> Inr a)"

definition displayError :: "json \<Rightarrow> app \<Rightarrow> app" where
  "displayError e a = a\<lparr>table := ErrorView e\<rparr>"

definition displayResults :: "app \<Rightarrow> formatted \<Rightarrow> js_exn + app" where
  "displayResults a res =
     (case res of
        Failed e t \<Rightarrow> Inr (displayError e a)
      | SelectResults headers rows n t raw \<Rightarrow> displaySelectResults (a\<lparr>table := Blank\<rparr>) res
      | AskResults b t raw \<Rightarrow> Inr (a\<lparr>table := AskView (truthy b)\<rparr>)
      | GraphResults ts n t raw \<Rightarrow> Inr (a\<lparr>table := GraphView ts\<rparr>)
      | OtherResults ty d t \<Rightarrow> Inr (a\<lparr>table := RawView (as_object res)\<rparr>))"

subsection \<open>Query history\<close>

text \<open>
  \<^verbatim>\<open>addToQueryHistory(query, results)\<close>; \<open>now\<close> is \<^verbatim>\<open>new Date().toISOString()\<close>.
  After the insertion the sample queries are fetched again for the drop-down.
\<close>

definition addToQueryHistory :: "app \<Rightarrow> string \<Rightarrow> formatted \<Rightarrow> string \<Rightarrow> app" where
  "addToQueryHistory a q res now =
     (let historyEntry =
            \<lparr> h_query = q, h_timestamp = now, h_success = f_success res,
              h_executionTime = f_executionTime res, h_type = f_type res,
              h_count = f_count res \<rparr>
      in if length (queryHistory a) > 0 \<and> h_query (queryHistory a ! 0) = q then a
         else
           let unshifted = historyEntry # queryHistory a;
               kept = (if length unshifted > 50 then js_slice unshifted 0 50 else unshifted)
           in a\<lparr>queryHistory := kept, calls := calls a @ [SampleQueries]\<rparr>)"

subsection \<open>Executing a query\<close>

text \<open>The \<^verbatim>\<open>catch\<close> block of \<^verbatim>\<open>executeQuery\<close>.\<close>

definition execution_error :: "js_exn \<Rightarrow> app \<Rightarrow> app" where
  "execution_error e a =
     showNotification (''Query execution error: '' @ message e) ''error''
       (displayError (JStr (message e)) a)"

text \<open>
  \<^verbatim>\<open>executeQuery()\<close>: \<open>editorText\<close> is what \<^verbatim>\<open>getCurrentQuery()\<close> returns, \<open>formatTime\<close>
  the utility of that name (its decimal rendering is floating point and is taken as
  given), the two times and \<open>now\<close> the clock readings as in \<open>query_fn\<close> and
  \<open>addToQueryHistory\<close>.
\<close>

definition executeQuery ::
  "config \<Rightarrow> (request \<Rightarrow> reply) \<Rightarrow> (int \<Rightarrow> string) \<Rightarrow> app \<Rightarrow> string \<Rightarrow> int \<Rightarrow> int \<Rightarrow> string \<Rightarrow> app" where
  "executeQuery cfg net formatTime a editorText startTime endTime now =
     (let sparql = trim editorText in
      if sparql = [] then showNotification ''Please enter a SPARQL query'' ''warning'' a
      else
        case validateQuery sparql of
          Invalid err \<Rightarrow> showNotification (''Query validation failed: '' @ err) ''error'' a
        | Valid \<Rightarrow>
            (let (sent, outcome) = query_fn cfg net sparql ''json'' startTime endTime;
                 a1 = a\<lparr>calls := calls a @ map ApiQuery sent\<rparr>
             in case outcome of
                  Inl e \<Rightarrow> execution_error e a1
                | Inr result \<Rightarrow>
                    if success result then
                      (case formatResults result of
                         Inl e \<Rightarrow> execution_error e a1
                       | Inr formattedResults \<Rightarrow>
                           (let a2 = a1\<lparr>currentResults := Some formattedResults,
                                         currentPage := 1,
                                         lastExecutedQuery := Some sparql\<rparr>
                            in case displayResults a2 formattedResults of
                                 Inl e \<Rightarrow> execution_error e a2
                               | Inr a3 \<Rightarrow>
                                   showNotification
                                     (''Query executed successfully in '' @ formatTime (executionTime result))
                                     ''success''
                                     (addToQueryHistory a3 sparql formattedResults now)))
                    else
                      showNotification (''Query failed: '' @ js_to_string (error result)) ''error''
                        (addToQueryHistory (displayError (error result) a1) sparql
                           (Failed (error result) (executionTime result)) now)))"

subsection \<open>Export\<close>

text \<open>
  The method \<^verbatim>\<open>exportToCSV(timestamp, queryType)\<close> of the application (the utility of
  the same name is \<open>exportToCSV\<close> above). \<open>stringify\<close> is \<^verbatim>\<open>JSON.stringify\<close>. The
  first component is the array \<^verbatim>\<open>data\<close>, the second the file name.
\<close>

definition export_data :: "(json \<Rightarrow> string) \<Rightarrow> formatted \<Rightarrow> string \<Rightarrow> string \<Rightarrow> json list \<times> string" where
  "export_data stringify res timestamp queryType =
     (let filename = queryType @ ''-results-'' @ timestamp @ ''.csv'' in
      case res of
        SelectResults headers rows n t raw \<Rightarrow> (map JObj rows, filename)
      | AskResults b t raw \<Rightarrow>
          ([JObj [(''result'', b)] ], ''ask-result-'' @ timestamp @ ''.csv'')
      | GraphResults ts n t raw \<Rightarrow>
          if truthy ts then
            (case ts of
               JArr xs \<Rightarrow>
                 (map (\<lambda>(index, triple).
                         JObj [(''index'', JNum (int index + 1)), (''triple'', JStr (stringify triple))])
                      (enumerate 0 xs),
                  filename)
             | _ \<Rightarrow> ([JObj [(''data'', JStr (stringify ts))] ], filename))
          else ([as_object res], filename)
      | _ \<Rightarrow> ([as_object res], filename))"

definition app_exportToCSV :: "(json \<Rightarrow> string) \<Rightarrow> app \<Rightarrow> string \<Rightarrow> string \<Rightarrow> js_exn + app" where
  "app_exportToCSV stringify a timestamp queryType =
     (case currentResults a of
        None \<Rightarrow> Inl (cannot_read ''null'' ''type'')
      | Some res \<Rightarrow>
          (let (data, filename) = export_data stringify res timestamp queryType in
           if length data = 0 then Inr (showNotification ''No data to export'' ''warning'' a)
           else
             and_then (exportToCSV data filename) (\<lambda>d.
               Inr (case d of
                      Some file \<Rightarrow> a\<lparr>downloads := downloads a @ [file]\<rparr>
                    | None \<Rightarrow> a))))"

text \<open>
  \<^verbatim>\<open>exportToJSON(timestamp, queryType)\<close>: \<open>pretty\<close> is \<^verbatim>\<open>JSON.stringify(_, null, 2)\<close>
  and \<open>exportedAt\<close> the clock reading as ISO text.
\<close>

definition app_exportToJSON :: "(json \<Rightarrow> string) \<Rightarrow> app \<Rightarrow> string \<Rightarrow> string \<Rightarrow> string \<Rightarrow> js_exn + app" where
  "app_exportToJSON pretty a timestamp queryType exportedAt =
     (case currentResults a of
        None \<Rightarrow> Inl (cannot_read ''null'' ''type'')
      | Some res \<Rightarrow>
          (let filename = queryType @ ''-results-'' @ timestamp @ ''.json'';
               exportData =
                 JObj [(''exportedAt'', JStr exportedAt),
                       (''queryType'', case f_type res of Some t \<Rightarrow> JStr t | None \<Rightarrow> JUndefined),
                       (''executionTime'', JNum (f_executionTime res)),
                       (''resultCount'', JNum (int (f_count res))),
                       (''results'', as_object res),
                       (''query'', case lastExecutedQuery a of
                                     Some q \<Rightarrow> js_or (JStr q) (JStr ''N/A'')
                                   | None \<Rightarrow> JStr ''N/A'')]
           in Inr (a\<lparr>downloads := downloads a @ [Download filename ''application/json'' (pretty exportData)]\<rparr>)))"

datatype export_format = csv | json_format

definition format_upper :: "export_format \<Rightarrow> string" where
  "format_upper f = (case f of csv \<Rightarrow> ''CSV'' | json_format \<Rightarrow> ''JSON'')"

text \<open>\<^verbatim>\<open>new Date().toISOString().replace(/[:.]/g, '-').slice(0, -5)\<close>\<close>

definition file_timestamp :: "string \<Rightarrow> string" where
  "file_timestamp isoText =
     js_slice (map (\<lambda>c. if c = CHR '':'' \<or> c = CHR ''.'' then CHR ''-'' else c) isoText) 0 (- 5)"

text \<open>
  \<^verbatim>\<open>exportResults(format)\<close>, called with \<^verbatim>\<open>'csv'\<close> or \<^verbatim>\<open>'json'\<close>; \<open>isoText\<close> and
  \<open>exportedAt\<close> are the two clock readings as ISO text.
\<close>

definition exportResults ::
  "(json \<Rightarrow> string) \<Rightarrow> (json \<Rightarrow> string) \<Rightarrow> app \<Rightarrow> export_format \<Rightarrow> string \<Rightarrow> string \<Rightarrow> app" where
  "exportResults stringify pretty a format isoText exportedAt =
     (case currentResults a of
        None \<Rightarrow> showNotification ''No results to export'' ''warning'' a
      | Some res \<Rightarrow>
          if \<not> f_success res then showNotification ''No results to export'' ''warning'' a
          else
            let timestamp = file_timestamp isoText;
                queryType = (case f_type res of
                               Some t \<Rightarrow> if t = [] then ''query'' else t
                             | None \<Rightarrow> ''query'');
                exported = (case format of
                              csv \<Rightarrow> app_exportToCSV stringify a timestamp queryType
                            | json_format \<Rightarrow> app_exportToJSON pretty a timestamp queryType exportedAt)
            in case exported of
                 Inr a' \<Rightarrow>
                   showNotification (''Results exported as '' @ format_upper format) ''success'' a'
               | Inl e \<Rightarrow> showNotification (''Export failed: '' @ message e) ''error'' a)"

section \<open>Auxiliary notions for the statements\<close>

text \<open>
  The value \<^verbatim>\<open>formatSelectResults\<close> stores for variable \<open>h\<close> of one binding object:
  the \<^verbatim>\<open>value\<close> field of what the binding holds for \<open>h\<close>, the empty string when it
  holds nothing (or something falsy) and nothing is inherited under \<open>h\<close>, and
  \<^verbatim>\<open>undefined\<close> where the read ends on the prototype chain.
\<close>

definition cell_value :: "(string \<times> json) list \<Rightarrow> string \<Rightarrow> json" where
  "cell_value binding h =
     (case read_in (JObj binding) h of
        Builtin b \<Rightarrow> JUndefined
      | Data v \<Rightarrow>
          if truthy v then (case get v ''value'' of Inr x \<Rightarrow> x | Inl e \<Rightarrow> JUndefined)
          else JStr [])"

text \<open>Recording a sequence of executions, oldest first, each with its time stamp.\<close>

fun record_all :: "app \<Rightarrow> (string \<times> formatted \<times> string) list \<Rightarrow> app" where
  "record_all a [] = a"
| "record_all a ((q, res, now) # xs) = record_all (addToQueryHistory a q res now) xs"

text \<open>
  The history according to the specification: of the executions, oldest first, the
  ones that enter the history are those whose text differs from the text of the
  entry in front at that moment (\<open>front\<close>, \<open>None\<close> for an empty history).
\<close>

definition entry_of :: "string \<Rightarrow> formatted \<Rightarrow> string \<Rightarrow> historyEntry" where
  "entry_of q res now =
     \<lparr> h_query = q, h_timestamp = now, h_success = f_success res,
       h_executionTime = f_executionTime res, h_type = f_type res, h_count = f_count res \<rparr>"

fun recorded_spec :: "string option \<Rightarrow> (string \<times> formatted \<times> string) list \<Rightarrow> historyEntry list" where
  "recorded_spec front [] = []"
| "recorded_spec front ((q, res, now) # xs) =
     (if front = Some q then recorded_spec front xs
      else entry_of q res now # recorded_spec (Some q) xs)"

definition front_query :: "app \<Rightarrow> string option" where
  "front_query a = (case queryHistory a of [] \<Rightarrow> None | e # es \<Rightarrow> Some (h_query e))"

text \<open>The state the constructor of \<^verbatim>\<open>GraphDBApp\<close> sets up; \<open>stored\<close> is the saved history.\<close>

definition new_app :: "historyEntry list \<Rightarrow> app" where
  "new_app stored =
     \<lparr> currentResults = None, currentPage = 1, pageSize = 50, lastExecutedQuery = None,
       queryHistory = stored, table = Blank, notifications = [], calls = [], downloads = [] \<rparr>"

text \<open>
  A select payload with one variable and \<open>n\<close> bindings, numbered from zero, and the
  rows that formatting makes of it.
\<close>

definition numbered_bindings :: "nat \<Rightarrow> (string \<times> json) list list" where
  "numbered_bindings n =
     map (\<lambda>i. [(''x'', JObj [(''type'', JStr ''literal''), (''value'', JStr (show_nat i))])]) [0..<n]"

definition numbered_payload :: "nat \<Rightarrow> json" where
  "numbered_payload n =
     JObj [(''head'', JObj [(''vars'', JArr [JStr ''x''])]),
           (''results'', JObj [(''bindings'', JArr (map JObj (numbered_bindings n)))])]"

definition numbered_rows :: "nat \<Rightarrow> nat \<Rightarrow> (string \<times> json) list list" where
  "numbered_rows i j = map (\<lambda>i. [(''x'', JStr (show_nat i))]) [i..<j]"

text \<open>
  The configuration the constructor of \<^verbatim>\<open>SPARQLClient\<close> sets up without arguments, and
  three networks: one that never answers, one whose server answers status 500 with a
  \<^verbatim>\<open>detail\<close>, one whose server answers status 200 with the success flag false.
\<close>

definition default_config :: config where
  "default_config =
     \<lparr> endpoint = ''http://localhost:7200'', repository = ''kgsde-proj'',
       username = [], password = [], timeout = 30000 \<rparr>"

definition offline :: "request \<Rightarrow> reply" where
  "offline req = NoResponse ''Failed to fetch''"

definition server_error :: "request \<Rightarrow> reply" where
  "server_error req =
     Response 500 ''Internal Server Error'' (Json (JObj [(''detail'', JStr ''Query failed'')]))"

definition store_failure :: "request \<Rightarrow> reply" where
  "store_failure req = Response 200 ''OK'' (Json (JObj [(''success'', JBool False)]))"

text \<open>
  One line of the CSV file: the fields of a row object under the given headers, in
  their order.
\<close>

definition csv_row :: "string list \<Rightarrow> (string \<times> json) list \<Rightarrow> string" where
  "csv_row headers row =
     join '','' (map (\<lambda>h. csv_field (read_in (JObj row) h)) headers)"

text \<open>A network whose server answers status 200 with the success flag and no payload.\<close>

definition success_without_payload :: "request \<Rightarrow> reply" where
  "success_without_payload req = Response 200 ''OK'' (Json (JObj [(''success'', JBool True)]))"

text \<open>A network whose server answers status 500 with the JSON body \<^verbatim>\<open>null\<close>.\<close>

definition null_body :: "request \<Rightarrow> reply" where
  "null_body req = Response 500 ''Internal Server Error'' (Json JNull)"

section \<open>Properties\<close>

subsection \<open>Reads\<close>

lemma literal_not_inherited:
  assumes "k \<in> set literal_keys"
  shows "inherited x k = None"
proof -
  have m: "k \<notin> set object_members" "k \<notin> set array_members" "k \<notin> set string_members"
    "k \<notin> set number_members" "k \<notin> set boolean_members" "k \<noteq> ''__proto__''" "k \<noteq> ''constructor''"
    using assms
    by (auto simp: literal_keys_def object_members_def array_members_def string_members_def
          number_members_def boolean_members_def)
  then show ?thesis by (cases x) (simp_all add: inherited_from_def)
qed

lemma get_own_property:
  "get x k = (if x = JUndefined then Inl (cannot_read ''undefined'' k)
              else if x = JNull then Inl (cannot_read ''null'' k)
              else Inr (case own_property x k of Some v \<Rightarrow> v | None \<Rightarrow> JUndefined))"
  by (cases x) (simp_all split: option.splits)

text \<open>Under a key that the sources write out, the read is the read of an own property.\<close>

lemma get_is_read:
  assumes "k \<in> set literal_keys"
  shows "read x k = (case get x k of Inl e \<Rightarrow> Inl e | Inr v \<Rightarrow> Inr (Data v))"
  using literal_not_inherited [OF assms, of x]
  by (cases x) (simp_all add: get_own_property read_in_def split: option.splits)

lemma read_in_plain:
  assumes "k \<notin> set object_members"
  shows "read_in (JObj kvs) k = Data (case map_of kvs k of Some v \<Rightarrow> v | None \<Rightarrow> JUndefined)"
proof -
  have "k \<noteq> ''__proto__''" "k \<noteq> ''constructor''"
    using assms by (auto simp: object_members_def)
  with assms show ?thesis
    by (simp add: read_in_def inherited_from_def split: option.splits)
qed

lemma read_in_cong:
  assumes "map_of r k = map_of r' k"
  shows "read_in (JObj r) k = read_in (JObj r') k"
  using assms by (simp add: read_in_def split: option.splits)

subsection \<open>Result formatting\<close>

lemma truthy_get: "truthy v \<Longrightarrow> \<exists>x. get v k = Inr x"
  by (cases v) (auto split: option.splits)

lemma startsWith_first: "startsWith t (c # p) \<Longrightarrow> \<exists>r. t = c # r"
  by (cases t) (auto simp: startsWith_def)

lemma getQueryType_select:
  "q \<noteq> [] \<Longrightarrow> startsWith (toLowerCase (trim q)) ''select'' \<Longrightarrow> getQueryType q = ''select''"
  by (simp add: getQueryType_def)

lemma getQueryType_ask:
  assumes "q \<noteq> []" and "startsWith (toLowerCase (trim q)) ''ask''"
  shows "getQueryType q = ''ask''"
proof -
  from assms(2) obtain r where t: "toLowerCase (trim q) = CHR ''a'' # r"
    using startsWith_first by blast
  have "\<not> startsWith (toLowerCase (trim q)) ''select''"
    and "\<not> startsWith (toLowerCase (trim q)) ''construct''"
    using t by (auto dest: startsWith_first)
  with assms show ?thesis by (simp add: getQueryType_def)
qed

text \<open>
  Where the payload of an \<^verbatim>\<open>ask\<close> outcome exists and its \<^verbatim>\<open>boolean\<close> field reads as
  \<^verbatim>\<open>undefined\<close>, formatting gives the ask result with value \<^verbatim>\<open>false\<close>.
\<close>

lemma ask_payload_without_boolean:
  fixes qr :: "'a queryResult_scheme"
  assumes "success qr"
    and "query qr \<noteq> []"
    and "startsWith (toLowerCase (trim (query qr))) ''ask''"
    and "get (results qr) ''boolean'' = Inr JUndefined"
  shows "formatResults qr = Inr (AskResults (JBool False) (executionTime qr) (results qr))"
proof -
  have "getQueryType (query qr) = ''ask''"
    using assms(2,3) by (rule getQueryType_ask)
  then have "formatResults qr = formatAskResults (results qr) (executionTime qr)"
    using assms(1) by (simp add: formatResults_def)
  also have "\<dots> = Inr (AskResults (JBool False) (executionTime qr) (results qr))"
    using assms(4) by (simp add: formatAskResults_def and_then_def js_or_def)
  finally show ?thesis .
qed

text \<open>
  Without a payload there is no field to read: formatting an \<^verbatim>\<open>ask\<close> outcome whose
  payload is \<^verbatim>\<open>null\<close> or \<^verbatim>\<open>undefined\<close> raises a TypeError, while
  \<^verbatim>\<open>formatSelectResults\<close> has a guard for such a payload.
\<close>

lemma formatAskResults_null_payload:
  "formatAskResults JNull t = Inl (cannot_read ''null'' ''boolean'')"
  "formatAskResults JUndefined t = Inl (cannot_read ''undefined'' ''boolean'')"
  by (simp_all add: formatAskResults_def and_then_def)

lemma formatSelectResults_null_payload:
  "formatSelectResults JNull t = Inr (SelectResults (JArr []) [] 0 t None)"
  "formatSelectResults JUndefined t = Inr (SelectResults (JArr []) [] 0 t None)"
  by (simp_all add: formatSelectResults_def no_bindings_def)

text \<open>
  Claim C6 fails on the code. The claim: a successful response to an \<^verbatim>\<open>ask\<close> query in
  which the boolean field is absent is formatted as the boolean result \<^verbatim>\<open>false\<close>, not
  as a failure. The code: the server answers \<^verbatim>\<open>{"success": true}\<close>, so \<^verbatim>\<open>query\<close>
  returns a successful outcome whose payload is \<^verbatim>\<open>undefined\<close>; formatting it as an
  \<^verbatim>\<open>ask\<close> outcome ends in a TypeError and gives no result, although the same
  outcome under a \<^verbatim>\<open>select\<close> query is formatted as an empty table.
\<close>

theorem ask_without_payload_raises:
  "snd (query_fn default_config success_without_payload ''ASK { ?s ?p ?o }'' ''json'' 100 130) =
     Inr \<lparr> success = True, results = JUndefined, error = JUndefined,
           executionTime = 30, query = ''ASK { ?s ?p ?o }'' \<rparr>
   \<and> formatResults \<lparr> success = True, results = JUndefined, error = JUndefined,
           executionTime = 30, query = ''ASK { ?s ?p ?o }'' \<rparr>
       = Inl (TypeError ''Cannot read properties of undefined (reading 'boolean')'')
   \<and> formatResults \<lparr> success = True, results = JUndefined, error = JUndefined,
           executionTime = 30, query = ''SELECT * WHERE { ?s ?p ?o }'' \<rparr>
       = Inr (SelectResults (JArr []) [] 0 30 None)"
  by code_simp

lemma build_row_obj:
  "build_row (JObj bk) (map JStr hs) row =
     Inr (foldl (\<lambda>r h. assign h (cell_value bk h) r) row hs)"
proof (induction hs arbitrary: row)
  case Nil
  show ?case by simp
next
  case (Cons h hs)
  show ?case
  proof (cases "read_in (JObj bk) h")
    case (Builtin b)
    then show ?thesis using Cons.IH by (simp add: and_then_def cell_value_def)
  next
    case (Data v)
    show ?thesis
    proof (cases "truthy v")
      case True
      then obtain x where "get v ''value'' = Inr x" using truthy_get by blast
      with Data True show ?thesis using Cons.IH by (simp add: and_then_def cell_value_def)
    next
      case False
      with Data show ?thesis using Cons.IH by (simp add: and_then_def cell_value_def)
    qed
  qed
qed

lemma foldl_assign_update:
  assumes "''__proto__'' \<notin> set hs"
  shows "foldl (\<lambda>r h. assign h (f h) r) row hs = foldl (\<lambda>r h. AList.update h (f h) r) row hs"
  using assms by (induction hs arbitrary: row) (auto simp: assign_def)

lemma foldl_update_keys:
  "fst ` set (foldl (\<lambda>r h. AList.update h (f h) r) row hs) = fst ` set row \<union> set hs"
  by (induction hs arbitrary: row) (auto simp: AList.dom_update)

lemma foldl_update_distinct:
  "distinct (map fst row) \<Longrightarrow> distinct (map fst (foldl (\<lambda>r h. AList.update h (f h) r) row hs))"
  by (induction hs arbitrary: row) (auto simp: AList.distinct_update)

lemma foldl_update_lookup:
  "map_of (foldl (\<lambda>r h. AList.update h (f h) r) row hs) k =
     (if k \<in> set hs then Some (f k) else map_of row k)"
  by (induction hs arbitrary: row) (auto simp: AList.update_conv')

lemma map_rows_obj:
  "map_rows (JArr (map JStr v)) (map JObj b) =
     Inr (map (\<lambda>bk. foldl (\<lambda>r h. assign h (cell_value bk h) r) [] v) b)"
  by (induction b) (simp_all add: and_then_def select_row_def build_row_obj)

lemma formatSelectResults_obj:
  assumes "map_of r ''head'' = Some (JObj h)"
    and "map_of h ''vars'' = Some (JArr (map JStr v))"
    and "map_of r ''results'' = Some (JObj rr)"
    and "map_of rr ''bindings'' = Some (JArr (map JObj b))"
  shows "formatSelectResults (JObj r) t =
     Inr (SelectResults (JArr (map JStr v))
            (map (\<lambda>bk. foldl (\<lambda>r h. assign h (cell_value bk h) r) [] v) b)
            (length b) t (Some (JObj r)))"
  using assms
  by (simp add: formatSelectResults_def no_bindings_def and_then_def js_or_def map_rows_obj)

text \<open>
  For declared variables of which none has the name of a member of
  \<^verbatim>\<open>Object.prototype\<close> the rows are as the specification has them: one row per
  binding, in order; the keys of every row are exactly the variables, each once; a
  variable that the binding does not hold is mapped to the empty string.
\<close>

lemma select_rows_plain_variables:
  fixes qr :: "'a queryResult_scheme"
  assumes "success qr"
    and "query qr \<noteq> []"
    and "startsWith (toLowerCase (trim (query qr))) ''select''"
    and "results qr = JObj r"
    and "map_of r ''head'' = Some (JObj h)"
    and "map_of h ''vars'' = Some (JArr (map JStr v))"
    and "map_of r ''results'' = Some (JObj rr)"
    and "map_of rr ''bindings'' = Some (JArr (map JObj b))"
    and plain: "\<forall>x \<in> set v. x \<notin> set object_members"
  shows "\<exists>rows.
           formatResults qr =
             Inr (SelectResults (JArr (map JStr v)) rows (length b) (executionTime qr) (Some (results qr)))
         \<and> length rows = length b
         \<and> (\<forall>i < length b.
               fst ` set (rows ! i) = set v
             \<and> distinct (map fst (rows ! i))
             \<and> (\<forall>x \<in> set v. map_of (rows ! i) x = Some (cell_value (b ! i) x))
             \<and> (\<forall>x \<in> set v. map_of (b ! i) x = None \<longrightarrow> map_of (rows ! i) x = Some (JStr [])))"
proof -
  have np: "''__proto__'' \<notin> set v"
    using plain by (auto simp: object_members_def)
  let ?rows = "map (\<lambda>bk. foldl (\<lambda>r h. AList.update h (cell_value bk h) r) [] v) b"
  have eq: "map (\<lambda>bk. foldl (\<lambda>r h. assign h (cell_value bk h) r) [] v) b = ?rows"
    using np by (simp add: foldl_assign_update)
  have "getQueryType (query qr) = ''select''"
    using assms(2,3) by (rule getQueryType_select)
  then have "formatResults qr = formatSelectResults (results qr) (executionTime qr)"
    using assms(1) by (simp add: formatResults_def)
  then have r: "formatResults qr =
      Inr (SelectResults (JArr (map JStr v)) ?rows (length b) (executionTime qr) (Some (results qr)))"
    using formatSelectResults_obj [OF assms(5-8)] assms(4) eq by simp
  have l: "length ?rows = length b" by simp
  have unbound: "cell_value bk x = JStr []" if "x \<in> set v" and "map_of bk x = None" for bk x
    using that plain by (simp add: cell_value_def read_in_plain)
  have p: "\<forall>i < length b.
               fst ` set (?rows ! i) = set v
             \<and> distinct (map fst (?rows ! i))
             \<and> (\<forall>x \<in> set v. map_of (?rows ! i) x = Some (cell_value (b ! i) x))
             \<and> (\<forall>x \<in> set v. map_of (b ! i) x = None \<longrightarrow> map_of (?rows ! i) x = Some (JStr []))"
    by (simp add: foldl_update_keys foldl_update_distinct foldl_update_lookup unbound)
  from r l p show ?thesis by blast
qed

text \<open>
  Claim C1 fails on the code. The claim: for a select query and a successful response
  with declared variables \<open>v\<close> and bindings \<open>b\<close>, every row has exactly the keys in
  \<open>v\<close>, and a variable that a binding leaves unbound is mapped to the empty string.
  The code reads \<^verbatim>\<open>binding[header]\<close> through the prototype chain. A binding that
  leaves the variable \<open>constructor\<close> unbound gives a row that maps it to \<^verbatim>\<open>undefined\<close>,
  not to the empty string; and a row has no key \<open>__proto__\<close> at all where that is a
  declared variable.
\<close>

theorem unbound_inherited_name_not_empty_string:
  "formatResults
     \<lparr> success = True,
       results = JObj [(''head'', JObj [(''vars'', JArr [JStr ''s'', JStr ''constructor''])]),
                       (''results'', JObj [(''bindings'',
                          JArr [JObj [(''s'', JObj [(''type'', JStr ''uri''), (''value'', JStr ''http://a'')])] ])])],
       error = JUndefined, executionTime = 5,
       query = ''SELECT ?s ?constructor WHERE { ?s ?p ?o OPTIONAL { ?o ?q ?constructor } }'' \<rparr>
     = Inr (SelectResults (JArr [JStr ''s'', JStr ''constructor''])
             [ [(''s'', JStr ''http://a''), (''constructor'', JUndefined)] ] 1 5
             (Some (JObj [(''head'', JObj [(''vars'', JArr [JStr ''s'', JStr ''constructor''])]),
                       (''results'', JObj [(''bindings'',
                          JArr [JObj [(''s'', JObj [(''type'', JStr ''uri''), (''value'', JStr ''http://a'')])] ])])])))
   \<and> formatResults
     \<lparr> success = True,
       results = JObj [(''head'', JObj [(''vars'', JArr [JStr ''s'', JStr ''__proto__''])]),
                       (''results'', JObj [(''bindings'',
                          JArr [JObj [(''s'', JObj [(''type'', JStr ''uri''), (''value'', JStr ''http://a'')])] ])])],
       error = JUndefined, executionTime = 5,
       query = ''SELECT ?s ?__proto__ WHERE { ?s ?p ?o OPTIONAL { ?o ?q ?__proto__ } }'' \<rparr>
     = Inr (SelectResults (JArr [JStr ''s'', JStr ''__proto__''])
             [ [(''s'', JStr ''http://a'')] ] 1 5
             (Some (JObj [(''head'', JObj [(''vars'', JArr [JStr ''s'', JStr ''__proto__''])]),
                       (''results'', JObj [(''bindings'',
                          JArr [JObj [(''s'', JObj [(''type'', JStr ''uri''), (''value'', JStr ''http://a'')])] ])])])))"
  by code_simp

subsection \<open>Repeated formatting\<close>

text \<open>
  Claim C8. Formatting reads five fields of the outcome and nothing else, neither of
  the outcome nor of any state: two outcomes that agree on \<^verbatim>\<open>success\<close>,
  \<^verbatim>\<open>results\<close>, \<^verbatim>\<open>error\<close>, \<^verbatim>\<open>executionTime\<close> and \<^verbatim>\<open>query\<close>, whatever else they carry,
  are formatted to equal results (or raise equal exceptions). So formatting the same
  query text and outcome a second time gives a structurally equal result.
\<close>

theorem formatResults_same_inputs_same_result:
  fixes a :: "'a queryResult_scheme" and b :: "'b queryResult_scheme"
  assumes "success a = success b"
    and "results a = results b"
    and "error a = error b"
    and "executionTime a = executionTime b"
    and "query a = query b"
  shows "formatResults a = formatResults b"
  unfolding formatResults_def assms by (rule refl)

text \<open>Two outcome objects with the same five fields and different further content.\<close>

theorem formatResults_same_inputs_same_result_witness:
  "formatResults \<lparr> success = True, results = JObj [(''boolean'', JBool True)], error = JUndefined,
       executionTime = 3, query = ''ASK { ?s ?p ?o }'', \<dots> = (1::nat) \<rparr>
   = formatResults \<lparr> success = True, results = JObj [(''boolean'', JBool True)], error = JUndefined,
       executionTime = 3, query = ''ASK { ?s ?p ?o }'', \<dots> = ''again'' \<rparr>"
  by (rule formatResults_same_inputs_same_result) simp_all

subsection \<open>Query history\<close>

lemma js_slice_nat: "js_slice xs (int i) (int j) = take (j - i) (drop i xs)"
proof -
  let ?n = "length xs"
  have k: "(if int i < 0 then max (int ?n + int i) 0 else min (int i) (int ?n)) = int (min i ?n)"
    by (simp add: min_def)
  have f: "(if int j < 0 then max (int ?n + int j) 0 else min (int j) (int ?n)) = int (min j ?n)"
    by (simp add: min_def)
  have "js_slice xs (int i) (int j) = take (nat (int (min j ?n) - int (min i ?n))) (drop (nat (int (min i ?n))) xs)"
    unfolding js_slice_def Let_def k f ..
  also have "\<dots> = take (min j ?n - min i ?n) (drop (min i ?n) xs)"
    by (simp add: nat_diff_distrib')
  also have "\<dots> = take (j - i) (drop i xs)"
  proof (cases "i < ?n")
    case True
    then show ?thesis by (simp add: min_def)
  next
    case False
    then show ?thesis by simp
  qed
  finally show ?thesis .
qed

lemma addToQueryHistory_duplicate:
  assumes "queryHistory a = e # es" and "h_query e = q"
  shows "addToQueryHistory a q res now = a"
  using assms by (simp add: addToQueryHistory_def)

lemma addToQueryHistory_new:
  assumes "front_query a \<noteq> Some q"
  shows "addToQueryHistory a q res now =
           a\<lparr>queryHistory := take 50 (entry_of q res now # queryHistory a),
             calls := calls a @ [SampleQueries]\<rparr>"
proof -
  have nd: "\<not> (length (queryHistory a) > 0 \<and> h_query (queryHistory a ! 0) = q)"
    using assms by (cases "queryHistory a") (auto simp: front_query_def)
  have "js_slice (entry_of q res now # queryHistory a) 0 50 = take 50 (entry_of q res now # queryHistory a)"
    using js_slice_nat [of "entry_of q res now # queryHistory a" 0 50] by simp
  then show ?thesis
    using nd unfolding addToQueryHistory_def Let_def entry_of_def by auto
qed

lemma front_query_Some:
  assumes "front_query a = Some q"
  obtains e es where "queryHistory a = e # es" and "h_query e = q"
  using assms by (cases "queryHistory a") (auto simp: front_query_def)

lemma addToQueryHistory_history:
  "queryHistory (addToQueryHistory a q res now) =
     (if front_query a = Some q then queryHistory a
      else take 50 (entry_of q res now # queryHistory a))"
proof (cases "front_query a = Some q")
  case True
  then show ?thesis
    by (auto elim!: front_query_Some simp: addToQueryHistory_duplicate)
next
  case False
  then show ?thesis by (simp add: addToQueryHistory_new)
qed

lemma front_after_add: "front_query (addToQueryHistory a q res now) = Some q"
proof (cases "front_query a = Some q")
  case True
  then obtain e es where "queryHistory a = e # es" "h_query e = q"
    by (rule front_query_Some)
  then show ?thesis using True by (simp add: addToQueryHistory_duplicate)
next
  case False
  then show ?thesis by (simp add: addToQueryHistory_new front_query_def entry_of_def)
qed

lemma take_append_take: "take n (ys @ take n zs) = take n (ys @ zs)"
  by (simp add: min_def)

lemma record_all_history:
  "length (queryHistory a) \<le> 50 \<Longrightarrow>
   queryHistory (record_all a xs) = take 50 (rev (recorded_spec (front_query a) xs) @ queryHistory a)"
proof (induction xs arbitrary: a)
  case Nil
  then show ?case by simp
next
  case (Cons x xs)
  obtain q res now where x: "x = (q, res, now)" by (cases x) auto
  let ?a = "addToQueryHistory a q res now"
  show ?case
  proof (cases "front_query a = Some q")
    case True
    then have "?a = a"
      by (auto elim!: front_query_Some simp: addToQueryHistory_duplicate)
    then show ?thesis using Cons True x by simp
  next
    case False
    have h: "queryHistory ?a = take 50 (entry_of q res now # queryHistory a)"
      using False by (simp add: addToQueryHistory_history)
    then have "length (queryHistory ?a) \<le> 50" by simp
    then have "queryHistory (record_all ?a xs) =
        take 50 (rev (recorded_spec (front_query ?a) xs) @ queryHistory ?a)"
      by (rule Cons.IH)
    also have "\<dots> = take 50 (rev (recorded_spec (Some q) xs) @ take 50 (entry_of q res now # queryHistory a))"
      by (simp only: front_after_add h)
    also have "\<dots> = take 50 (rev (recorded_spec (Some q) xs) @ entry_of q res now # queryHistory a)"
      by (rule take_append_take)
    finally show ?thesis using False x by simp
  qed
qed

text \<open>
  Claim C4. Starting from a history of at most 50 entries (the empty one of a first
  start, or one this code saved), after any sequence of recorded executions the
  history is the executions that entered it, most recent first, in front of the
  earlier entries, cut to the first 50; an execution enters unless its text equals
  the text of the entry then in front. So the history never has more than 50
  entries, every insertion puts the new entry in front and drops what lies beyond
  index 49, and recording one text twice in a row leaves one entry.
\<close>

theorem history_recent_first_bounded_deduplicated:
  assumes "length (queryHistory a) \<le> 50"
  shows "queryHistory (record_all a xs) =
           take 50 (rev (recorded_spec (front_query a) xs) @ queryHistory a)
       \<and> length (queryHistory (record_all a xs)) \<le> 50
       \<and> queryHistory (addToQueryHistory a q res now) =
           (if front_query a = Some q then queryHistory a
            else take 50 (entry_of q res now # queryHistory a))
       \<and> queryHistory (addToQueryHistory (addToQueryHistory a q res now) q res' now') =
           queryHistory (addToQueryHistory a q res now)"
proof -
  have 1: "queryHistory (record_all a xs) =
           take 50 (rev (recorded_spec (front_query a) xs) @ queryHistory a)"
    using assms by (rule record_all_history)
  then have 2: "length (queryHistory (record_all a xs)) \<le> 50" by simp
  have 3: "queryHistory (addToQueryHistory a q res now) =
           (if front_query a = Some q then queryHistory a
            else take 50 (entry_of q res now # queryHistory a))"
    by (rule addToQueryHistory_history)
  have 4: "queryHistory (addToQueryHistory (addToQueryHistory a q res now) q res' now') =
           queryHistory (addToQueryHistory a q res now)"
    by (simp add: addToQueryHistory_history [of "addToQueryHistory a q res now"] front_after_add)
  from 1 2 3 4 show ?thesis by blast
qed

text \<open>
  A first start: one query run twice in a row (the second run fails), then another
  query. The history holds two entries, the later query in front.
\<close>

theorem history_recent_first_bounded_deduplicated_witness:
  "length (queryHistory (new_app [])) \<le> 50
   \<and> queryHistory (record_all (new_app [])
        [(''SELECT * WHERE { ?s ?p ?o }'', SelectResults (JArr []) [] 0 7 None, ''2024-01-01T10:00:00.000Z''),
         (''SELECT * WHERE { ?s ?p ?o }'', Failed (JStr ''Query failed'') 9, ''2024-01-01T10:00:05.000Z''),
         (''ASK { ?s ?p ?o }'', AskResults (JBool True) 4 (JObj [(''boolean'', JBool True)]), ''2024-01-01T10:00:09.000Z'')])
     = [\<lparr> h_query = ''ASK { ?s ?p ?o }'', h_timestamp = ''2024-01-01T10:00:09.000Z'', h_success = True,
           h_executionTime = 4, h_type = Some ''ask'', h_count = 0 \<rparr>,
        \<lparr> h_query = ''SELECT * WHERE { ?s ?p ?o }'', h_timestamp = ''2024-01-01T10:00:00.000Z'', h_success = True,
           h_executionTime = 7, h_type = Some ''select'', h_count = 0 \<rparr>]"
proof -
  let ?xs = "[(''SELECT * WHERE { ?s ?p ?o }'', SelectResults (JArr []) [] 0 7 None, ''2024-01-01T10:00:00.000Z''),
         (''SELECT * WHERE { ?s ?p ?o }'', Failed (JStr ''Query failed'') 9, ''2024-01-01T10:00:05.000Z''),
         (''ASK { ?s ?p ?o }'', AskResults (JBool True) 4 (JObj [(''boolean'', JBool True)]), ''2024-01-01T10:00:09.000Z'')]"
  have h: "length (queryHistory (new_app [])) \<le> 50" by (simp add: new_app_def)
  have "queryHistory (record_all (new_app []) ?xs) =
          take 50 (rev (recorded_spec (front_query (new_app [])) ?xs) @ queryHistory (new_app []))"
    using history_recent_first_bounded_deduplicated [OF h, of ?xs] by (rule conjunct1)
  then show ?thesis
    using h by (simp add: new_app_def front_query_def entry_of_def)
qed

subsection \<open>Pagination\<close>

lemma ceil_div_bounds:
  assumes "0 < ps"
  shows "n \<le> ceil_div n ps * ps" and "ceil_div n ps * ps < n + ps"
proof -
  have e: "n + ps - 1 = ((n + ps - 1) div ps) * ps + (n + ps - 1) mod ps" by simp
  have m: "(n + ps - 1) mod ps < ps" using assms by simp
  show "n \<le> ceil_div n ps * ps" using e m assms unfolding ceil_div_def by linarith
  show "ceil_div n ps * ps < n + ps" using e m assms unfolding ceil_div_def by linarith
qed

lemma ceil_div_ceiling:
  assumes "0 < ps"
  shows "int (ceil_div n ps) = \<lceil>real n / real ps\<rceil>"
proof -
  have p: "0 < real ps" using assms by simp
  have 1: "real n \<le> real (ceil_div n ps) * real ps"
    using ceil_div_bounds(1) [OF assms, of n] by (metis of_nat_le_iff of_nat_mult)
  have 2: "real (ceil_div n ps) * real ps < real n + real ps"
    using ceil_div_bounds(2) [OF assms, of n] by (metis of_nat_less_iff of_nat_mult of_nat_add)
  have a: "real n / real ps \<le> of_int (int (ceil_div n ps))"
    using 1 p by (simp add: pos_divide_le_eq)
  have "(real (ceil_div n ps) - 1) * real ps < real n" using 2 by (simp add: algebra_simps)
  then have b: "of_int (int (ceil_div n ps)) - 1 < real n / real ps"
    using p by (simp add: pos_less_divide_eq)
  show ?thesis using ceiling_unique [OF b a] by simp
qed

lemma ceil_div_zero: "ceil_div 0 ps = 0"
  by (cases ps) (simp_all add: ceil_div_def)

lemma page_slice:
  assumes "1 \<le> m"
  shows "js_slice rows ((int m - 1) * int ps) (min ((int m - 1) * int ps + int ps) (int (length rows)))
       = take (min (m * ps) (length rows) - (m - 1) * ps) (drop ((m - 1) * ps) rows)"
proof -
  obtain k where m: "m = Suc k" using assms by (cases m) auto
  have s: "(int m - 1) * int ps = int ((m - 1) * ps)" using m by simp
  have "(int m - 1) * int ps + int ps = int (m * ps)"
    using m by (simp add: algebra_simps)
  then have e: "min ((int m - 1) * int ps + int ps) (int (length rows)) = int (min (m * ps) (length rows))"
    by (simp only: min_def of_nat_le_iff if_distrib [of int])
  show ?thesis
    by (simp only: e) (simp only: s js_slice_nat)
qed

lemma map_rows_headers:
  assumes "map_rows headers bs = Inr rows" and "rows \<noteq> []"
  shows "\<exists>hs. headers = JArr hs"
proof (cases bs)
  case Nil
  with assms show ?thesis by simp
next
  case (Cons b bs')
  with assms(1) obtain r where "select_row headers b = Inr r"
    by (auto simp: and_then_def split: sum.splits)
  then show ?thesis by (auto simp: select_row_def split: json.splits)
qed

lemma formatSelectResults_shape:
  assumes "formatSelectResults res t = Inr r"
  shows "\<exists>headers rows raw.
           r = SelectResults headers rows (length rows) t raw
         \<and> (rows \<noteq> [] \<longrightarrow> (\<exists>hs. headers = JArr hs))"
proof (cases "no_bindings res")
  case True
  with assms show ?thesis by (auto simp: formatSelectResults_def)
next
  case False
  with assms obtain headers bs rows where
    "map_rows headers bs = Inr rows" and "r = SelectResults headers rows (length rows) t (Some res)"
    by (auto simp: formatSelectResults_def and_then_def Let_def split: sum.splits json.splits)
  then show ?thesis using map_rows_headers by blast
qed

lemma goToPage_out_of_range:
  assumes "currentResults a = Some (SelectResults headers rows k t raw)"
    and "0 < pageSize a"
    and "n < 1 \<or> n > int (ceil_div (length rows) (pageSize a))"
  shows "goToPage a n = Inr a"
  using assms by (auto simp: goToPage_def beyond_last_page_def)

lemma goToPage_in_range:
  assumes c: "currentResults a = Some (SelectResults (JArr hs) rows (length rows) t raw)"
    and p: "0 < pageSize a"
    and n: "1 \<le> n" "n \<le> int (ceil_div (length rows) (pageSize a))"
  shows "goToPage a n =
     Inr (a\<lparr>currentPage := n,
             table := Table (map textContent hs)
               (map (render_row hs)
                  (take (min (nat n * pageSize a) (length rows) - (nat n - 1) * pageSize a)
                     (drop ((nat n - 1) * pageSize a) rows)))\<rparr>)"
proof -
  have "rows \<noteq> []"
  proof
    assume "rows = []"
    then have "ceil_div (length rows) (pageSize a) = 0" by (simp add: ceil_div_zero)
    with n show False by simp
  qed
  then have l: "length rows \<noteq> 0" by simp
  define m where "m = nat n"
  have m: "n = int m" "1 \<le> m" using n(1) by (simp_all add: m_def)
  have g: "goToPage a n =
      displaySelectResults (a\<lparr>currentPage := n\<rparr>) (SelectResults (JArr hs) rows (length rows) t raw)"
    using c p n by (simp add: goToPage_def beyond_last_page_def)
  have s: "js_slice rows ((n - 1) * int (pageSize a))
             (min ((n - 1) * int (pageSize a) + int (pageSize a)) (int (length rows)))
         = take (min (nat n * pageSize a) (length rows) - (nat n - 1) * pageSize a)
             (drop ((nat n - 1) * pageSize a) rows)"
    using page_slice [OF m(2), of rows "pageSize a"] m(1) by simp
  show ?thesis
    unfolding g using l s by (simp add: displaySelectResults_def Let_def)
qed

text \<open>
  Claim C5. Let the current result be a select result as formatting produces it,
  with a positive page size. The number of pages is the ceiling of the row count
  over the page size. \<^verbatim>\<open>goToPage(n)\<close> changes nothing when \<open>n < 1\<close> or \<open>n\<close> exceeds
  the number of pages; otherwise it sets the current page to \<open>n\<close> and the table
  shows exactly the rows from index \<open>(n-1) * pageSize\<close> up to, not including,
  \<open>min (n * pageSize) totalRows\<close>.
\<close>

theorem goToPage_moves_within_page_count:
  assumes "formatSelectResults res t = Inr r"
    and "currentResults a = Some r"
    and "0 < pageSize a"
  shows "\<exists>headers rows raw.
           r = SelectResults headers rows (length rows) t raw
         \<and> int (ceil_div (length rows) (pageSize a)) = \<lceil>real (length rows) / real (pageSize a)\<rceil>
         \<and> (n < 1 \<or> n > \<lceil>real (length rows) / real (pageSize a)\<rceil> \<longrightarrow> goToPage a n = Inr a)
         \<and> (1 \<le> n \<and> n \<le> \<lceil>real (length rows) / real (pageSize a)\<rceil> \<longrightarrow>
              (\<exists>hs. headers = JArr hs
                 \<and> goToPage a n =
                     Inr (a\<lparr>currentPage := n,
                             table := Table (map textContent hs)
                               (map (render_row hs)
                                  (take (min (nat n * pageSize a) (length rows) - (nat n - 1) * pageSize a)
                                     (drop ((nat n - 1) * pageSize a) rows)))\<rparr>)))"
proof -
  from formatSelectResults_shape [OF assms(1)] obtain headers rows raw where
    r: "r = SelectResults headers rows (length rows) t raw"
    and h: "rows \<noteq> [] \<longrightarrow> (\<exists>hs. headers = JArr hs)"
    by blast
  let ?pages = "\<lceil>real (length rows) / real (pageSize a)\<rceil>"
  have c: "int (ceil_div (length rows) (pageSize a)) = ?pages"
    using assms(3) by (rule ceil_div_ceiling)
  have cur: "currentResults a = Some (SelectResults headers rows (length rows) t raw)"
    using assms(2) r by simp
  have out: "n < 1 \<or> n > ?pages \<longrightarrow> goToPage a n = Inr a"
    using goToPage_out_of_range [OF cur assms(3), of n] c by simp
  have inr: "1 \<le> n \<and> n \<le> ?pages \<longrightarrow>
              (\<exists>hs. headers = JArr hs
                 \<and> goToPage a n =
                     Inr (a\<lparr>currentPage := n,
                             table := Table (map textContent hs)
                               (map (render_row hs)
                                  (take (min (nat n * pageSize a) (length rows) - (nat n - 1) * pageSize a)
                                     (drop ((nat n - 1) * pageSize a) rows)))\<rparr>))"
  proof
    assume n: "1 \<le> n \<and> n \<le> ?pages"
    then have "0 < ceil_div (length rows) (pageSize a)" using c by linarith
    then have "rows \<noteq> []" by (auto simp: ceil_div_zero)
    with h obtain hs where hs: "headers = JArr hs" by blast
    have "goToPage a n =
            Inr (a\<lparr>currentPage := n,
                    table := Table (map textContent hs)
                      (map (render_row hs)
                         (take (min (nat n * pageSize a) (length rows) - (nat n - 1) * pageSize a)
                            (drop ((nat n - 1) * pageSize a) rows)))\<rparr>)"
      using goToPage_in_range [OF cur [unfolded hs] assms(3), of n] n c by simp
    with hs show "\<exists>hs. headers = JArr hs
                 \<and> goToPage a n =
                     Inr (a\<lparr>currentPage := n,
                             table := Table (map textContent hs)
                               (map (render_row hs)
                                  (take (min (nat n * pageSize a) (length rows) - (nat n - 1) * pageSize a)
                                     (drop ((nat n - 1) * pageSize a) rows)))\<rparr>)"
      by blast
  qed
  from r c out inr show ?thesis by blast
qed

lemma formatSelectResults_numbered:
  "formatSelectResults (numbered_payload k) t =
     Inr (SelectResults (JArr [JStr ''x'']) (numbered_rows 0 k) k t (Some (numbered_payload k)))"
proof -
  let ?h = "[(''vars'', JArr [JStr ''x''])]"
  let ?rr = "[(''bindings'', JArr (map JObj (numbered_bindings k)))]"
  let ?r = "[(''head'', JObj ?h), (''results'', JObj ?rr)]"
  have 1: "map_of ?r ''head'' = Some (JObj ?h)" by simp
  have 2: "map_of ?h ''vars'' = Some (JArr (map JStr [''x'']))" by simp
  have 3: "map_of ?r ''results'' = Some (JObj ?rr)" by simp
  have 4: "map_of ?rr ''bindings'' = Some (JArr (map JObj (numbered_bindings k)))" by simp
  have "formatSelectResults (JObj ?r) t =
     Inr (SelectResults (JArr (map JStr [''x'']))
            (map (\<lambda>bk. foldl (\<lambda>r h. assign h (cell_value bk h) r) [] [''x'']) (numbered_bindings k))
            (length (numbered_bindings k)) t (Some (JObj ?r)))"
    using 1 2 3 4 by (rule formatSelectResults_obj)
  then show ?thesis
    by (simp add: numbered_payload_def numbered_bindings_def numbered_rows_def cell_value_def
          assign_def read_in_def)
qed

text \<open>
  120 rows in pages of 50: three pages; page 3 shows the rows 100 to 119; from there
  \<^verbatim>\<open>goToPage(4)\<close> changes nothing, so the page stays 3.
\<close>

theorem goToPage_moves_within_page_count_witness:
  "formatSelectResults (numbered_payload 120) 8 =
     Inr (SelectResults (JArr [JStr ''x'']) (numbered_rows 0 120) 120 8 (Some (numbered_payload 120)))
   \<and> \<lceil>real (120::nat) / real (50::nat)\<rceil> = 3
   \<and> goToPage ((new_app [])\<lparr>currentResults :=
         Some (SelectResults (JArr [JStr ''x'']) (numbered_rows 0 120) 120 8 (Some (numbered_payload 120)))\<rparr>) 3
      = Inr ((new_app [])\<lparr>currentResults :=
         Some (SelectResults (JArr [JStr ''x'']) (numbered_rows 0 120) 120 8 (Some (numbered_payload 120))),
         currentPage := 3,
         table := Table [''x''] (map (render_row [JStr ''x'']) (numbered_rows 100 120))\<rparr>)
   \<and> goToPage ((new_app [])\<lparr>currentResults :=
         Some (SelectResults (JArr [JStr ''x'']) (numbered_rows 0 120) 120 8 (Some (numbered_payload 120))),
         currentPage := 3,
         table := Table [''x''] (map (render_row [JStr ''x'']) (numbered_rows 100 120))\<rparr>) 4
      = Inr ((new_app [])\<lparr>currentResults :=
         Some (SelectResults (JArr [JStr ''x'']) (numbered_rows 0 120) 120 8 (Some (numbered_payload 120))),
         currentPage := 3,
         table := Table [''x''] (map (render_row [JStr ''x'']) (numbered_rows 100 120))\<rparr>)"
proof -
  let ?r = "SelectResults (JArr [JStr ''x'']) (numbered_rows 0 120) 120 8 (Some (numbered_payload 120))"
  let ?a = "(new_app [])\<lparr>currentResults := Some ?r\<rparr>"
  let ?a3 = "(new_app [])\<lparr>currentResults := Some ?r, currentPage := 3,
         table := Table [''x''] (map (render_row [JStr ''x'']) (numbered_rows 100 120))\<rparr>"
  have f: "formatSelectResults (numbered_payload 120) 8 = Inr ?r"
    by (rule formatSelectResults_numbered)
  have len: "length (numbered_rows 0 120) = 120" by (simp add: numbered_rows_def)
  have pages: "\<lceil>real (120::nat) / real (50::nat)\<rceil> = 3"
    by (simp add: ceiling_eq_iff)
  have sl: "take 20 (drop 100 (numbered_rows 0 120)) = numbered_rows 100 120"
    by (simp add: numbered_rows_def drop_map take_map)
  have ca: "currentResults ?a = Some ?r" by simp
  have pa: "0 < pageSize ?a" by (simp add: new_app_def)
  from goToPage_moves_within_page_count [OF f ca pa, of 3]
  obtain headers rows raw where
    e: "?r = SelectResults headers rows (length rows) 8 raw"
    and i: "1 \<le> (3::int) \<and> 3 \<le> \<lceil>real (length rows) / real (pageSize ?a)\<rceil> \<longrightarrow>
              (\<exists>hs. headers = JArr hs
                 \<and> goToPage ?a 3 =
                     Inr (?a\<lparr>currentPage := 3,
                             table := Table (map textContent hs)
                               (map (render_row hs)
                                  (take (min (nat 3 * pageSize ?a) (length rows) - (nat 3 - 1) * pageSize ?a)
                                     (drop ((nat 3 - 1) * pageSize ?a) rows)))\<rparr>))"
    by blast
  from e have rows: "rows = numbered_rows 0 120" and hd: "headers = JArr [JStr ''x'']" by simp_all
  have ps: "pageSize ?a = 50" by (simp add: new_app_def)
  have "3 \<le> \<lceil>real (length rows) / real (pageSize ?a)\<rceil>"
    unfolding rows len ps using pages by simp
  with i have "\<exists>hs. headers = JArr hs
                 \<and> goToPage ?a 3 =
                     Inr (?a\<lparr>currentPage := 3,
                             table := Table (map textContent hs)
                               (map (render_row hs)
                                  (take (min (nat 3 * pageSize ?a) (length rows) - (nat 3 - 1) * pageSize ?a)
                                     (drop ((nat 3 - 1) * pageSize ?a) rows)))\<rparr>)"
    by simp
  then have g3: "goToPage ?a 3 = Inr ?a3"
    unfolding hd rows len ps by (auto simp: sl textContent_def)
  have c3: "currentResults ?a3 = Some ?r" by simp
  have p3: "0 < pageSize ?a3" by (simp add: new_app_def)
  from goToPage_moves_within_page_count [OF f c3 p3, of 4]
  obtain headers' rows' raw' where
    e': "?r = SelectResults headers' rows' (length rows') 8 raw'"
    and o: "(4::int) < 1 \<or> 4 > \<lceil>real (length rows') / real (pageSize ?a3)\<rceil> \<longrightarrow> goToPage ?a3 4 = Inr ?a3"
    by blast
  from e' have rows': "rows' = numbered_rows 0 120" by simp
  have ps3: "pageSize ?a3 = 50" by (simp add: new_app_def)
  have "4 > \<lceil>real (length rows') / real (pageSize ?a3)\<rceil>"
    unfolding rows' len ps3 using pages by simp
  with o have g4: "goToPage ?a3 4 = Inr ?a3" by simp
  from f pages g3 g4 show ?thesis by simp
qed

subsection \<open>Validation and the network\<close>

lemma dropWhile_id: "xs = [] \<or> \<not> P (hd xs) \<Longrightarrow> dropWhile P xs = xs"
  by (cases xs) auto

lemma last_dropWhile: "dropWhile P xs \<noteq> [] \<Longrightarrow> last (dropWhile P xs) = last xs"
  by (induction xs) (auto split: if_splits)

lemma trim_trim: "trim (trim s) = trim s"
proof -
  define A where "A = dropWhile is_ws s"
  define B where "B = dropWhile is_ws (rev A)"
  have b: "dropWhile is_ws B = B" by (simp add: B_def)
  have "dropWhile is_ws (rev B) = rev B"
  proof (cases "B = []")
    case True
    then show ?thesis by simp
  next
    case False
    then have ne: "A \<noteq> []" by (auto simp: B_def)
    have "hd (rev B) = last B" using False by (simp add: hd_rev)
    also have "\<dots> = last (rev A)" using False unfolding B_def by (rule last_dropWhile)
    also have "\<dots> = hd A" using ne by (simp add: last_rev)
    finally have "hd (rev B) = hd A" .
    moreover have "\<not> is_ws (hd A)" using ne unfolding A_def by (rule hd_dropWhile)
    ultimately show ?thesis by (simp add: dropWhile_id)
  qed
  moreover have "trim s = rev B" by (simp add: trim_def A_def B_def)
  ultimately show ?thesis by (simp add: trim_def b)
qed

lemma filter_dropWhile: "(\<And>x. Q x \<Longrightarrow> \<not> P x) \<Longrightarrow> filter Q (dropWhile P xs) = filter Q xs"
  by (induction xs) auto

lemma count_char_trim:
  assumes "\<not> is_ws c"
  shows "count_char c (trim s) = count_char c s"
proof -
  have q: "\<And>x. x = c \<Longrightarrow> \<not> is_ws x" using assms by simp
  have "filter (\<lambda>x. x = c) (dropWhile is_ws (rev (dropWhile is_ws s)))
      = filter (\<lambda>x. x = c) (rev (dropWhile is_ws s))"
    using q by (rule filter_dropWhile)
  moreover have "filter (\<lambda>x. x = c) (dropWhile is_ws s) = filter (\<lambda>x. x = c) s"
    using q by (rule filter_dropWhile)
  ultimately show ?thesis
    by (simp add: count_char_def trim_def flip: rev_filter)
qed

lemma braces_not_ws: "\<not> is_ws (CHR ''{'')" "\<not> is_ws (CHR ''}'')"
  by (simp_all add: is_ws_def)

lemma keyword_not_empty:
  assumes "list_ex (startsWith t) validPrefixes"
  shows "t \<noteq> []"
  using assms by (auto simp: validPrefixes_def startsWith_def)

lemma validateQuery_mismatch:
  assumes "list_ex (startsWith (toLowerCase (trim q))) validPrefixes"
    and "count_char (CHR ''{'') q \<noteq> count_char (CHR ''}'') q"
  shows "validateQuery q = Invalid ''Mismatched curly brackets in query''"
proof -
  have "toLowerCase (trim q) \<noteq> []" using assms(1) by (rule keyword_not_empty)
  then have "trim q \<noteq> []" by (auto simp: toLowerCase_def)
  moreover from this have "q \<noteq> []" by (auto simp: trim_def)
  ultimately show ?thesis using assms by (simp add: validateQuery_def Let_def)
qed

lemma validateQuery_trim:
  assumes "list_ex (startsWith (toLowerCase (trim q))) validPrefixes"
    and "count_char (CHR ''{'') q \<noteq> count_char (CHR ''}'') q"
  shows "validateQuery (trim q) = Invalid ''Mismatched curly brackets in query''"
proof (rule validateQuery_mismatch)
  show "list_ex (startsWith (toLowerCase (trim (trim q)))) validPrefixes"
    using assms(1) by (simp only: trim_trim)
  show "count_char (CHR ''{'') (trim q) \<noteq> count_char (CHR ''}'') (trim q)"
    using assms(2) by (simp only: count_char_trim braces_not_ws not_False_eq_True)
qed

lemma validateQuery_Valid_iff:
  "validateQuery q = Valid \<longleftrightarrow>
     list_ex (startsWith (toLowerCase (trim q))) validPrefixes
     \<and> count_char (CHR ''{'') q = count_char (CHR ''}'') q"
proof (cases "list_ex (startsWith (toLowerCase (trim q))) validPrefixes")
  case True
  then have "toLowerCase (trim q) \<noteq> []" by (rule keyword_not_empty)
  then have "trim q \<noteq> []" by (auto simp: toLowerCase_def)
  moreover from this have "q \<noteq> []" by (auto simp: trim_def)
  ultimately show ?thesis using True by (simp add: validateQuery_def Let_def)
next
  case False
  then show ?thesis by (simp add: validateQuery_def Let_def)
qed

text \<open>
  Claim C9. A query text is valid exactly when (trimmed, in lower case) it starts
  with one of the seven keywords and has as many opening as closing braces. A text
  that starts with a keyword and has unequal numbers of braces is invalid with the
  error \<^verbatim>\<open>Mismatched curly brackets in query\<close>; \<^verbatim>\<open>executeQuery\<close> on such a text only
  shows the validation error and makes no network call.
\<close>

theorem mismatched_braces_rejected_before_network:
  shows "(validateQuery q = Valid \<longleftrightarrow>
            list_ex (startsWith (toLowerCase (trim q))) validPrefixes
            \<and> count_char (CHR ''{'') q = count_char (CHR ''}'') q)
       \<and> (list_ex (startsWith (toLowerCase (trim q))) validPrefixes
            \<and> count_char (CHR ''{'') q \<noteq> count_char (CHR ''}'') q \<longrightarrow>
            validateQuery q = Invalid ''Mismatched curly brackets in query''
          \<and> executeQuery cfg net formatTime a q startTime endTime now =
              showNotification ''Query validation failed: Mismatched curly brackets in query'' ''error'' a
          \<and> calls (executeQuery cfg net formatTime a q startTime endTime now) = calls a)"
proof -
  have "validateQuery q = Invalid ''Mismatched curly brackets in query''
          \<and> executeQuery cfg net formatTime a q startTime endTime now =
              showNotification ''Query validation failed: Mismatched curly brackets in query'' ''error'' a
          \<and> calls (executeQuery cfg net formatTime a q startTime endTime now) = calls a"
    if kw: "list_ex (startsWith (toLowerCase (trim q))) validPrefixes"
      and br: "count_char (CHR ''{'') q \<noteq> count_char (CHR ''}'') q"
  proof -
    have v: "validateQuery q = Invalid ''Mismatched curly brackets in query''"
      using kw br by (rule validateQuery_mismatch)
    have t: "validateQuery (trim q) = Invalid ''Mismatched curly brackets in query''"
      using kw br by (rule validateQuery_trim)
    have "toLowerCase (trim q) \<noteq> []" using kw by (rule keyword_not_empty)
    then have ne: "trim q \<noteq> []" by (auto simp: toLowerCase_def)
    have e: "executeQuery cfg net formatTime a q startTime endTime now =
             showNotification ''Query validation failed: Mismatched curly brackets in query'' ''error'' a"
      using ne t by (simp add: executeQuery_def Let_def)
    then have "calls (executeQuery cfg net formatTime a q startTime endTime now) = calls a"
      by (simp add: showNotification_def)
    with v e show ?thesis by blast
  qed
  then show ?thesis using validateQuery_Valid_iff by blast
qed

text \<open>A select query whose closing brace is missing, on a fresh application.\<close>

theorem mismatched_braces_rejected_before_network_witness:
  "list_ex (startsWith (toLowerCase (trim ''SELECT * WHERE { ?s ?p ?o''))) validPrefixes
   \<and> count_char (CHR ''{'') ''SELECT * WHERE { ?s ?p ?o'' = 1
   \<and> count_char (CHR ''}'') ''SELECT * WHERE { ?s ?p ?o'' = 0
   \<and> validateQuery ''SELECT * WHERE { ?s ?p ?o'' = Invalid ''Mismatched curly brackets in query''
   \<and> calls (executeQuery default_config offline show_int (new_app [])
              ''SELECT * WHERE { ?s ?p ?o'' 0 5 ''2024-01-01T10:00:00.000Z'') = []"
proof -
  have 1: "list_ex (startsWith (toLowerCase (trim ''SELECT * WHERE { ?s ?p ?o''))) validPrefixes"
    by code_simp
  have o: "count_char (CHR ''{'') ''SELECT * WHERE { ?s ?p ?o'' = 1" by code_simp
  have c: "count_char (CHR ''}'') ''SELECT * WHERE { ?s ?p ?o'' = 0" by code_simp
  have n: "calls (new_app []) = []" by (simp add: new_app_def)
  show ?thesis
    using 1 o c n
      mismatched_braces_rejected_before_network [of "''SELECT * WHERE { ?s ?p ?o''" default_config offline
        show_int "new_app []" 0 5 "''2024-01-01T10:00:00.000Z''"]
    by (simp add: showNotification_def)
qed

text \<open>
  Claim C3, as the code has it. For an empty or whitespace-only query text, \<^verbatim>\<open>query\<close>
  sends nothing and leaves by the exception \<^verbatim>\<open>Error('SPARQL query cannot be empty')\<close>:
  it returns no failure object. \<^verbatim>\<open>executeQuery\<close> on such a text shows the warning
  \<^verbatim>\<open>Please enter a SPARQL query\<close> and makes no network call.
\<close>

theorem empty_query_raises_without_network:
  assumes "trim q = []"
  shows "query_fn cfg net q format startTime endTime = ([], Inl (Error ''SPARQL query cannot be empty''))
       \<and> executeQuery cfg net formatTime a q startTime endTime now =
           showNotification ''Please enter a SPARQL query'' ''warning'' a
       \<and> calls (executeQuery cfg net formatTime a q startTime endTime now) = calls a"
  using assms by (simp add: query_fn_def executeQuery_def showNotification_def)

theorem empty_query_raises_without_network_witness:
  "trim [CHR '' '', CHR 0x09, CHR 0x0A] = []
   \<and> query_fn default_config offline [CHR '' '', CHR 0x09, CHR 0x0A] ''json'' 0 5
       = ([], Inl (Error ''SPARQL query cannot be empty''))
   \<and> calls (executeQuery default_config offline show_int (new_app [])
              [CHR '' '', CHR 0x09, CHR 0x0A] 0 5 ''2024-01-01T10:00:00.000Z'') = []"
proof -
  have t: "trim [CHR '' '', CHR 0x09, CHR 0x0A] = []" by code_simp
  have n: "calls (new_app []) = []" by (simp add: new_app_def)
  show ?thesis
    using t n
      empty_query_raises_without_network [OF t, of default_config offline "''json''" 0 5 show_int
        "new_app []" "''2024-01-01T10:00:00.000Z''"]
    by (simp add: showNotification_def)
qed

text \<open>
  The claim as stated fails: on three blanks \<^verbatim>\<open>query\<close> ends in an exception, where the
  claim has a returned failure outcome.
\<close>

theorem empty_query_returned_as_outcome_counterexample:
  "snd (query_fn default_config offline ''   '' ''json'' 0 5)
     = Inl (Error ''SPARQL query cannot be empty'')"
  by code_simp

subsection \<open>Failures of a query\<close>

lemma query_fn_sent:
  assumes "trim q \<noteq> []"
  shows "query_fn cfg net q format startTime endTime =
           ([query_request cfg q format],
            Inr (case receive (net (query_request cfg q format)) of
                   Inr res \<Rightarrow>
                     \<lparr> success = True, results = res, error = JUndefined,
                       executionTime = endTime - startTime, query = q \<rparr>
                 | Inl e \<Rightarrow>
                     \<lparr> success = False, results = JUndefined, error = JStr (message e),
                       executionTime = endTime - startTime, query = q \<rparr>))"
proof -
  from assms have "q \<noteq> []" by (auto simp: trim_def)
  with assms show ?thesis by (simp add: query_fn_def Let_def)
qed

text \<open>
  Claim C2, as the code has it. Every failure of an executed query is returned as
  the object \<^verbatim>\<open>{success: false, error, executionTime, query}\<close> whose \<^verbatim>\<open>error\<close> is a
  message text: the message of the rejection when there is no response or the body
  does not parse; for a status outside 200 to 299 the text of \<^verbatim>\<open>detail\<close> or else
  \<^verbatim>\<open>HTTP <status>: <statusText>\<close>; for a success flag that is false or missing the
  text of \<^verbatim>\<open>message\<close> or else \<^verbatim>\<open>Query failed\<close>; and where the body is \<^verbatim>\<open>null\<close>, the
  message of the TypeError that the read of \<^verbatim>\<open>detail\<close> or \<^verbatim>\<open>success\<close> raises. Any
  other reply gives the successful outcome. The failure object has no field that
  names the class of the failure.
\<close>

theorem query_failures_carry_message_text:
  assumes "trim q \<noteq> []"
  shows "(net (query_request cfg q format) = NoResponse m \<longrightarrow>
            snd (query_fn cfg net q format startTime endTime) =
              Inr \<lparr> success = False, results = JUndefined, error = JStr m,
                    executionTime = endTime - startTime, query = q \<rparr>)
       \<and> (net (query_request cfg q format) = Response status statusText (Malformed m) \<longrightarrow>
            snd (query_fn cfg net q format startTime endTime) =
              Inr \<lparr> success = False, results = JUndefined, error = JStr m,
                    executionTime = endTime - startTime, query = q \<rparr>)
       \<and> (net (query_request cfg q format) = Response status statusText (Json data)
            \<and> \<not> ok status \<longrightarrow>
            snd (query_fn cfg net q format startTime endTime) =
              Inr \<lparr> success = False, results = JUndefined,
                    error = JStr (case get data ''detail'' of
                                    Inl e \<Rightarrow> message e
                                  | Inr d \<Rightarrow> if truthy d then js_to_string d
                                            else ''HTTP '' @ show_nat status @ '': '' @ statusText),
                    executionTime = endTime - startTime, query = q \<rparr>)
       \<and> (net (query_request cfg q format) = Response status statusText (Json data)
            \<and> ok status
            \<and> (case get data ''success'' of Inl e \<Rightarrow> True | Inr flag \<Rightarrow> \<not> truthy flag) \<longrightarrow>
            snd (query_fn cfg net q format startTime endTime) =
              Inr \<lparr> success = False, results = JUndefined,
                    error = JStr (case get data ''success'' of
                                    Inl e \<Rightarrow> message e
                                  | Inr flag \<Rightarrow>
                                      (case get data ''message'' of
                                         Inl e \<Rightarrow> message e
                                       | Inr d \<Rightarrow> if truthy d then js_to_string d else ''Query failed'')),
                    executionTime = endTime - startTime, query = q \<rparr>)
       \<and> (net (query_request cfg q format) = Response status statusText (Json data)
            \<and> ok status
            \<and> (case get data ''success'' of Inl e \<Rightarrow> False | Inr flag \<Rightarrow> truthy flag) \<longrightarrow>
            snd (query_fn cfg net q format startTime endTime) =
              Inr \<lparr> success = True,
                    results = (case get data ''results'' of Inl e \<Rightarrow> JUndefined | Inr r \<Rightarrow> r),
                    error = JUndefined,
                    executionTime = endTime - startTime, query = q \<rparr>)"
proof -
  let ?req = "query_request cfg q format"
  let ?out = "snd (query_fn cfg net q format startTime endTime)"
  have out: "?out =
    Inr (case receive (net ?req) of
           Inr res \<Rightarrow>
             \<lparr> success = True, results = res, error = JUndefined,
               executionTime = endTime - startTime, query = q \<rparr>
         | Inl e \<Rightarrow>
             \<lparr> success = False, results = JUndefined, error = JStr (message e),
               executionTime = endTime - startTime, query = q \<rparr>)"
    by (simp add: query_fn_sent [OF assms])
  have 1: "receive (NoResponse m) = Inl (TypeError m)" by (simp add: receive_def)
  have 2: "receive (Response status statusText (Malformed m)) = Inl (SyntaxError m)"
    by (simp add: receive_def)
  have 3: "receive (Response status statusText (Json data)) =
             Inl (case get data ''detail'' of
                    Inl e \<Rightarrow> e
                  | Inr d \<Rightarrow> Error (if truthy d then js_to_string d
                               else ''HTTP '' @ show_nat status @ '': '' @ statusText))"
    if "\<not> ok status"
    using that by (simp add: receive_def and_then_def js_or_def split: sum.splits)
  have 4: "receive (Response status statusText (Json data)) =
             Inl (case get data ''success'' of
                    Inl e \<Rightarrow> e
                  | Inr flag \<Rightarrow>
                      (case get data ''message'' of
                         Inl e \<Rightarrow> e
                       | Inr d \<Rightarrow> Error (if truthy d then js_to_string d else ''Query failed'')))"
    if "ok status" and "case get data ''success'' of Inl e \<Rightarrow> True | Inr flag \<Rightarrow> \<not> truthy flag"
    using that by (simp add: receive_def and_then_def js_or_def split: sum.splits)
  have 5: "receive (Response status statusText (Json data)) =
             Inr (case get data ''results'' of Inl e \<Rightarrow> JUndefined | Inr r \<Rightarrow> r)"
    if "ok status" and "case get data ''success'' of Inl e \<Rightarrow> False | Inr flag \<Rightarrow> truthy flag"
  proof -
    from that(2) obtain flag where f: "get data ''success'' = Inr flag" "truthy flag"
      by (auto split: sum.splits)
    then have "data \<noteq> JNull" "data \<noteq> JUndefined" by auto
    then obtain r where "get data ''results'' = Inr r"
      by (simp add: get_own_property)
    with f that(1) show ?thesis by (simp add: receive_def and_then_def)
  qed
  show ?thesis
    unfolding out
    by (auto simp: 1 2 3 4 5 split: sum.splits)
qed

text \<open>
  The default configuration; a status 503 whose body has no \<^verbatim>\<open>detail\<close>, and a status
  500 whose body is \<^verbatim>\<open>null\<close>.
\<close>

theorem query_failures_carry_message_text_witness:
  "trim ''ASK { ?s ?p ?o }'' \<noteq> []
   \<and> \<not> ok 503
   \<and> snd (query_fn default_config (\<lambda>req. Response 503 ''Service Unavailable'' (Json (JObj [])))
            ''ASK { ?s ?p ?o }'' ''json'' 100 130) =
       Inr \<lparr> success = False, results = JUndefined,
             error = JStr ''HTTP 503: Service Unavailable'',
             executionTime = 30, query = ''ASK { ?s ?p ?o }'' \<rparr>
   \<and> \<not> ok 500
   \<and> snd (query_fn default_config null_body ''ASK { ?s ?p ?o }'' ''json'' 100 130) =
       Inr \<lparr> success = False, results = JUndefined,
             error = JStr ''Cannot read properties of null (reading 'detail')'',
             executionTime = 30, query = ''ASK { ?s ?p ?o }'' \<rparr>"
proof -
  have t: "trim ''ASK { ?s ?p ?o }'' \<noteq> []" by code_simp
  have k: "\<not> ok 503" "\<not> ok 500" by (simp_all add: ok_def)
  have s: "show_nat 503 = ''503''" by code_simp
  have 1: "snd (query_fn default_config (\<lambda>req. Response 503 ''Service Unavailable'' (Json (JObj [])))
            ''ASK { ?s ?p ?o }'' ''json'' 100 130) =
       Inr \<lparr> success = False, results = JUndefined,
             error = JStr ''HTTP 503: Service Unavailable'',
             executionTime = 30, query = ''ASK { ?s ?p ?o }'' \<rparr>"
    using k
      query_failures_carry_message_text [OF t,
        where net = "\<lambda>req. Response 503 ''Service Unavailable'' (Json (JObj []))"
          and cfg = default_config and format = "''json''" and status = 503
          and statusText = "''Service Unavailable''" and data = "JObj []"
          and startTime = 100 and endTime = 130]
    by (simp add: s)
  have 2: "snd (query_fn default_config null_body ''ASK { ?s ?p ?o }'' ''json'' 100 130) =
       Inr \<lparr> success = False, results = JUndefined,
             error = JStr ''Cannot read properties of null (reading 'detail')'',
             executionTime = 30, query = ''ASK { ?s ?p ?o }'' \<rparr>"
    using k
      query_failures_carry_message_text [OF t,
        where net = null_body
          and cfg = default_config and format = "''json''" and status = 500
          and statusText = "''Internal Server Error''" and data = JNull
          and startTime = 100 and endTime = 130]
    by (simp add: null_body_def cannot_read_def)
  from t k 1 2 show ?thesis by simp
qed

text \<open>
  The claim as stated fails: a transport failure (status 500 with the detail
  \<^verbatim>\<open>Query failed\<close>) and an application failure (status 200, success flag false) give
  the same outcome, so the caller cannot tell the two classes apart.
\<close>

theorem failure_classes_distinguishable_counterexample:
  "snd (query_fn default_config server_error ''ASK { ?s ?p ?o }'' ''json'' 100 130) =
     Inr \<lparr> success = False, results = JUndefined, error = JStr ''Query failed'',
           executionTime = 30, query = ''ASK { ?s ?p ?o }'' \<rparr>
   \<and> snd (query_fn default_config store_failure ''ASK { ?s ?p ?o }'' ''json'' 100 130) =
     Inr \<lparr> success = False, results = JUndefined, error = JStr ''Query failed'',
           executionTime = 30, query = ''ASK { ?s ?p ?o }'' \<rparr>"
  by code_simp

subsection \<open>CSV export\<close>

lemma own_keys_set: "set (own_keys kvs) = fst ` set kvs"
  by (auto simp: own_keys_def Let_def)

lemma own_keys_distinct: "distinct (own_keys kvs)"
  by (auto simp: own_keys_def Let_def)

lemma csv_fields_obj:
  "csv_fields (JObj row) hs = Inr (map (\<lambda>h. csv_field (read_in (JObj row) h)) hs)"
  by (induction hs) (simp_all add: and_then_def)

lemma csv_lines_obj: "csv_lines hs (map JObj rows) = Inr (map (csv_row hs) rows)"
  by (induction rows) (simp_all add: and_then_def csv_fields_obj csv_row_def)

lemma exportToCSV_objects:
  "exportToCSV (JObj first # map JObj rest) filename =
     Inr (Some (Download filename ''text/csv;charset=utf-8;''
            (join [CHR 0x0A] (join '','' (own_keys first) # map (csv_row (own_keys first)) (first # rest)))))"
proof -
  have "csv_lines (own_keys first) (JObj first # map JObj rest)
      = Inr (map (csv_row (own_keys first)) (first # rest))"
    using csv_lines_obj [of "own_keys first" "first # rest"] by simp
  then show ?thesis by (simp add: exportToCSV_def and_then_def)
qed

lemma csv_row_cong:
  assumes "\<forall>h \<in> set hs. map_of r h = map_of r' h"
  shows "csv_row hs r = csv_row hs r'"
proof -
  have "\<forall>h \<in> set hs. read_in (JObj r) h = read_in (JObj r') h"
    using assms read_in_cong by blast
  then have "map (\<lambda>h. csv_field (read_in (JObj r) h)) hs = map (\<lambda>h. csv_field (read_in (JObj r') h)) hs"
    by simp
  then show ?thesis unfolding csv_row_def by (rule arg_cong)
qed

lemma csv_rows_cong:
  assumes "list_all2 (\<lambda>r r'. \<forall>h \<in> set hs. map_of r h = map_of r' h) rest rest'"
  shows "map (csv_row hs) rest = map (csv_row hs) rest'"
  using assms by (induction rule: list_all2_induct) (simp_all add: csv_row_cong)

text \<open>
  Claim C10. For a non-empty array of row objects the CSV file has, as its first
  line, the keys of the first row (each key once, no other), and then one line per
  row with the fields under those keys only. Rows that agree with given ones on the
  keys of the first row give the same file: a key that only a later row has is left
  out without notice.
\<close>

theorem csv_columns_are_first_row_keys:
  shows "exportToCSV (JObj first # map JObj rest) filename =
           Inr (Some (Download filename ''text/csv;charset=utf-8;''
                  (join [CHR 0x0A]
                     (join '','' (own_keys first) # map (csv_row (own_keys first)) (first # rest)))))
       \<and> set (own_keys first) = fst ` set first
       \<and> distinct (own_keys first)
       \<and> (list_all2 (\<lambda>r r'. \<forall>h \<in> set (own_keys first). map_of r h = map_of r' h) rest rest' \<longrightarrow>
            exportToCSV (JObj first # map JObj rest') filename =
            exportToCSV (JObj first # map JObj rest) filename)"
proof -
  have "list_all2 (\<lambda>r r'. \<forall>h \<in> set (own_keys first). map_of r h = map_of r' h) rest rest' \<longrightarrow>
            exportToCSV (JObj first # map JObj rest') filename =
            exportToCSV (JObj first # map JObj rest) filename"
    by (simp only: exportToCSV_objects list.simps(9)) (auto dest: csv_rows_cong)
  then show ?thesis
    using exportToCSV_objects own_keys_set own_keys_distinct by blast
qed

text \<open>
  The first row has the keys \<open>a\<close> and \<open>b\<close>, the second \<open>a\<close> and \<open>c\<close>: the file has
  the columns \<open>a\<close> and \<open>b\<close>, and the value under \<open>c\<close> is not in it.
\<close>

theorem csv_columns_are_first_row_keys_witness:
  "exportToCSV [JObj [(''a'', JStr ''1''), (''b'', JStr ''2'')], JObj [(''a'', JStr ''3''), (''c'', JStr ''4'')] ]
      ''select-results.csv''
     = Inr (Some (Download ''select-results.csv'' ''text/csv;charset=utf-8;''
             [CHR ''a'', CHR '','', CHR ''b'', CHR 0x0A, CHR ''1'', CHR '','', CHR ''2'', CHR 0x0A,
              CHR ''3'', CHR '','']))
   \<and> exportToCSV [JObj [(''a'', JStr ''1''), (''b'', JStr ''2'')], JObj [(''a'', JStr ''3'')] ]
      ''select-results.csv''
     = exportToCSV [JObj [(''a'', JStr ''1''), (''b'', JStr ''2'')], JObj [(''a'', JStr ''3''), (''c'', JStr ''4'')] ]
      ''select-results.csv''"
proof -
  let ?first = "[(''a'', JStr ''1''), (''b'', JStr ''2'')]"
  let ?rest = "[ [(''a'', JStr ''3''), (''c'', JStr ''4'')] ]"
  let ?rest' = "[ [(''a'', JStr ''3'')] ]"
  have k: "own_keys ?first = [''a'', ''b'']" by code_simp
  have "list_all2 (\<lambda>r r'. \<forall>h \<in> set (own_keys ?first). map_of r h = map_of r' h) ?rest ?rest'"
    unfolding k by simp
  moreover have "csv_row [''a'', ''b''] ?first = [CHR ''1'', CHR '','', CHR ''2'']" by code_simp
  moreover have "csv_row [''a'', ''b''] [(''a'', JStr ''3''), (''c'', JStr ''4'')] = [CHR ''3'', CHR '','']"
    by code_simp
  ultimately show ?thesis
    using csv_columns_are_first_row_keys [of ?first ?rest "''select-results.csv''" ?rest']
    unfolding k by simp
qed

subsection \<open>Export of an empty result\<close>

lemma enumerate_empty: "enumerate n xs = [] \<Longrightarrow> xs = []"
  by (cases xs) simp_all

lemma export_data_empty:
  assumes "fst (export_data stringify res timestamp queryType) = []"
  shows "(\<exists>headers n t raw. res = SelectResults headers [] n t raw)
       \<or> (\<exists>n t raw. res = GraphResults (JArr []) n t raw)"
  using assms
  by (cases res) (auto simp: export_data_def Let_def dest: enumerate_empty split: if_splits json.splits)

lemma export_data_empty_any:
  assumes "fst (export_data stringify res timestamp queryType) = []"
  shows "fst (export_data stringify res timestamp' queryType') = []"
  using export_data_empty [OF assms] by (auto simp: export_data_def)

lemma export_data_empty_success:
  assumes "fst (export_data stringify res timestamp queryType) = []"
  shows "f_success res"
  using export_data_empty [OF assms] by auto

lemma app_exportToCSV_empty:
  assumes "currentResults a = Some res"
    and "fst (export_data stringify res timestamp queryType) = []"
  shows "app_exportToCSV stringify a timestamp queryType =
           Inr (showNotification ''No data to export'' ''warning'' a)"
  using assms by (simp add: app_exportToCSV_def split_beta)

text \<open>
  Claim C7, as the code has it. When the rows derived from the current result for
  the CSV file are none, the export raises no error: the method shows the warning
  \<^verbatim>\<open>No data to export\<close> and returns, \<^verbatim>\<open>exportResults('csv')\<close> hands no file to the
  browser, and the utility returns silently on an empty array.
\<close>

theorem empty_export_warns_and_returns:
  assumes "currentResults a = Some res"
    and "fst (export_data stringify res timestamp queryType) = []"
  shows "app_exportToCSV stringify a timestamp queryType =
           Inr (showNotification ''No data to export'' ''warning'' a)
       \<and> downloads (exportResults stringify pretty a csv isoText exportedAt) = downloads a
       \<and> exportToCSV [] filename = Inr None"
proof -
  have 1: "app_exportToCSV stringify a timestamp queryType =
           Inr (showNotification ''No data to export'' ''warning'' a)"
    using assms by (rule app_exportToCSV_empty)
  have s: "f_success res" using assms(2) by (rule export_data_empty_success)
  have e: "\<And>ts qt. app_exportToCSV stringify a ts qt =
           Inr (showNotification ''No data to export'' ''warning'' a)"
    using assms(1) export_data_empty_any [OF assms(2)] by (rule app_exportToCSV_empty)
  have 2: "downloads (exportResults stringify pretty a csv isoText exportedAt) = downloads a"
    using assms(1) s by (simp add: exportResults_def Let_def e showNotification_def)
  have 3: "exportToCSV [] filename = Inr None" by (simp add: exportToCSV_def)
  from 1 2 3 show ?thesis by blast
qed

text \<open>A graph result with an empty array of triples, on a fresh application.\<close>

theorem empty_export_warns_and_returns_witness:
  "fst (export_data js_to_string (GraphResults (JArr []) 0 7 (JArr [])) ''2024-01-01T10-00-00'' ''graph'') = []
   \<and> app_exportToCSV js_to_string
        ((new_app [])\<lparr>currentResults := Some (GraphResults (JArr []) 0 7 (JArr []))\<rparr>)
        ''2024-01-01T10-00-00'' ''graph''
      = Inr ((new_app [])\<lparr>currentResults := Some (GraphResults (JArr []) 0 7 (JArr [])),
                            notifications := [(''No data to export'', ''warning'')]\<rparr>)
   \<and> downloads (exportResults js_to_string js_to_string
        ((new_app [])\<lparr>currentResults := Some (GraphResults (JArr []) 0 7 (JArr []))\<rparr>)
        csv ''2024-01-01T10:00:00.000Z'' ''2024-01-01T10:00:00.001Z'') = []"
proof -
  let ?res = "GraphResults (JArr []) 0 7 (JArr [])"
  let ?a = "(new_app [])\<lparr>currentResults := Some ?res\<rparr>"
  have c: "currentResults ?a = Some ?res" by simp
  have d: "fst (export_data js_to_string ?res ''2024-01-01T10-00-00'' ''graph'') = []"
    by (simp add: export_data_def)
  show ?thesis
    using d empty_export_warns_and_returns [OF c d,
        where pretty = js_to_string and isoText = "''2024-01-01T10:00:00.000Z''"
          and exportedAt = "''2024-01-01T10:00:00.001Z''"]
    by (simp add: showNotification_def new_app_def)
qed

text \<open>
  The claim as stated fails: for a select result without rows the export method
  returns normally, with the warning shown; no error is raised.
\<close>

theorem empty_export_raises_error_counterexample:
  "app_exportToCSV js_to_string
     ((new_app [])\<lparr>currentResults := Some (SelectResults (JArr []) [] 0 7 None)\<rparr>)
     ''2024-01-01T10-00-00'' ''select''
   = Inr ((new_app [])\<lparr>currentResults := Some (SelectResults (JArr []) [] 0 7 None),
                         notifications := [(''No data to export'', ''warning'')]\<rparr>)"
  by (simp add: app_exportToCSV_def export_data_def showNotification_def new_app_def)

end
